theory Spec2Isabelle
  imports Main
begin

section \<open>Python values\<close>

text \<open>
  The client is dynamically typed: every argument it receives and every value it hands to
  or takes from the backend SDK is a Python object.  \<open>pyval\<close> is the part of that universe
  the client can tell apart: \<open>None\<close>, booleans, integers, strings, lists, tuples, dicts (as
  association lists in insertion order, keys distinct) and instances of other classes.
  An instance carries its class name, its data attributes and, when the class has a
  \<open>to_map\<close> method (the SDK's model classes), the value that method returns.
  Values are compared structurally; object identity is not part of the model.
\<close>

datatype pyval =
    PNone
  | PBool bool
  | PInt int
  | PStr string
  | PList "pyval list"
  | PTuple "pyval list"
  | PDict "(pyval \<times> pyval) list"
  | PObject string "(string \<times> pyval) list" "pyval option"

text \<open>
  Exceptions.  \<open>ValidationError\<close> is the library's own class (exceptions.py) and carries
  its message; \<open>AttributeError\<close>, \<open>TypeError\<close> and \<open>ValueError\<close> are raised by the
  interpreter; \<open>SDKError\<close> stands for any exception the backend SDK raises, with the text
  \<open>str(e)\<close> gives for it.
\<close>

datatype exn =
    ValidationError string
  | AttributeError string
  | TypeError string
  | ValueError string
  | SDKError string

fun str_exn :: "exn \<Rightarrow> string" where
  "str_exn (ValidationError m) = m"
| "str_exn (AttributeError m) = m"
| "str_exn (TypeError m) = m"
| "str_exn (ValueError m) = m"
| "str_exn (SDKError m) = m"

text \<open>\<open>type(v).__name__\<close>\<close>

fun type_name :: "pyval \<Rightarrow> string" where
  "type_name PNone = ''NoneType''"
| "type_name (PBool b) = ''bool''"
| "type_name (PInt i) = ''int''"
| "type_name (PStr s) = ''str''"
| "type_name (PList xs) = ''list''"
| "type_name (PTuple xs) = ''tuple''"
| "type_name (PDict kvs) = ''dict''"
| "type_name (PObject cls attrs tm) = cls"

text \<open>Truth value of an object, as \<open>if v\<close> and \<open>not v\<close> test it.\<close>

fun truthy :: "pyval \<Rightarrow> bool" where
  "truthy PNone = False"
| "truthy (PBool b) = b"
| "truthy (PInt i) = (i \<noteq> 0)"
| "truthy (PStr s) = (s \<noteq> [])"
| "truthy (PList xs) = (xs \<noteq> [])"
| "truthy (PTuple xs) = (xs \<noteq> [])"
| "truthy (PDict kvs) = (kvs \<noteq> [])"
| "truthy (PObject cls attrs tm) = True"

text \<open>\<open>isinstance(v, str)\<close>, \<open>isinstance(v, dict)\<close>, \<open>isinstance(v, list)\<close>\<close>

fun is_str :: "pyval \<Rightarrow> bool" where
  "is_str (PStr s) = True"
| "is_str v = False"

fun is_dict :: "pyval \<Rightarrow> bool" where
  "is_dict (PDict kvs) = True"
| "is_dict v = False"

fun is_list :: "pyval \<Rightarrow> bool" where
  "is_list (PList xs) = True"
| "is_list v = False"

definition no_attribute :: "string \<Rightarrow> string \<Rightarrow> string" where
  "no_attribute cls name = [CHR 0x27] @ cls @ [CHR 0x27] @ '' object has no attribute '' @ [CHR 0x27] @ name @ [CHR 0x27]"

text \<open>
  \<open>v.get(key, default)\<close> with a string key: the dict method on a dict; no other value of
  the model has an attribute \<open>get\<close>.
\<close>

definition py_get :: "pyval \<Rightarrow> string \<Rightarrow> pyval \<Rightarrow> exn + pyval" where
  "py_get v key dflt =
     (case v of
        PDict kvs \<Rightarrow> Inr (case map_of kvs (PStr key) of None \<Rightarrow> dflt | Some x \<Rightarrow> x)
      | _ \<Rightarrow> Inl (AttributeError (no_attribute (type_name v) ''get'')))"

section \<open>Message normalisation\<close>

record AddMemoriesRequestMessages =
  role :: pyval
  content :: pyval

text \<open>
  \<open>SLSMemoryClient._prepare_messages\<close> (client.py 79-106).  The loop appends one request
  message per element; the first element without \<open>get\<close> ends it with the interpreter's
  error.
\<close>

fun SLSMemoryClient_prepare_loop ::
  "pyval list \<Rightarrow> AddMemoriesRequestMessages list \<Rightarrow> exn + AddMemoriesRequestMessages list" where
  "SLSMemoryClient_prepare_loop [] result = Inr result"
| "SLSMemoryClient_prepare_loop (msg # rest) result =
     (case py_get msg ''role'' (PStr ''user'') of
        Inl e \<Rightarrow> Inl e
      | Inr r \<Rightarrow>
          (case py_get msg ''content'' (PStr []) of
             Inl e \<Rightarrow> Inl e
           | Inr c \<Rightarrow> SLSMemoryClient_prepare_loop rest (result @ [\<lparr>role = r, content = c\<rparr>])))"

definition SLSMemoryClient_prepare_messages ::
  "pyval \<Rightarrow> exn + AddMemoriesRequestMessages list" where
  "SLSMemoryClient_prepare_messages messages =
     (if is_str messages then
        SLSMemoryClient_prepare_loop
          [PDict [(PStr ''role'', PStr ''user''), (PStr ''content'', messages)]] []
      else if is_dict messages then
        SLSMemoryClient_prepare_loop [messages] []
      else if \<not> is_list messages then
        Inl (ValidationError
          (''messages must be str, dict, or list[dict], got '' @ type_name messages))
      else
        (case messages of PList xs \<Rightarrow> SLSMemoryClient_prepare_loop xs []))"

section \<open>Response flattening\<close>

definition quoted :: "string \<Rightarrow> string" where
  "quoted s = [CHR 0x27] @ s @ [CHR 0x27]"

fun str_nat :: "nat \<Rightarrow> string" where
  "str_nat n =
     (if n < 10 then [char_of (48 + n)]
      else str_nat (n div 10) @ [char_of (48 + n mod 10)])"

declare str_nat.simps [simp del]

text \<open>\<open>iter(v)\<close>: the elements a \<open>for\<close> loop visits, \<open>None\<close> when \<open>v\<close> is not iterable.\<close>

fun py_iter :: "pyval \<Rightarrow> pyval list option" where
  "py_iter (PStr s) = Some (map (\<lambda>c. PStr [c]) s)"
| "py_iter (PList xs) = Some xs"
| "py_iter (PTuple xs) = Some xs"
| "py_iter (PDict kvs) = Some (map fst kvs)"
| "py_iter v = None"

text \<open>
  Dict keys: lists and dicts (and tuples holding one) are unhashable; \<open>True\<close> and \<open>1\<close>,
  \<open>False\<close> and \<open>0\<close> are the same key.
\<close>

fun unhashable :: "pyval \<Rightarrow> string option" where
  "unhashable (PList xs) = Some ''list''"
| "unhashable (PDict kvs) = Some ''dict''"
| "unhashable (PTuple xs) =
     (case filter (\<lambda>r. r \<noteq> None) (map unhashable xs) of [] \<Rightarrow> None | r # rs \<Rightarrow> r)"
| "unhashable v = None"

fun key_norm :: "pyval \<Rightarrow> pyval" where
  "key_norm (PBool b) = PInt (if b then 1 else 0)"
| "key_norm (PTuple xs) = PTuple (map key_norm xs)"
| "key_norm v = v"

fun dict_setitem :: "(pyval \<times> pyval) list \<Rightarrow> pyval \<Rightarrow> pyval \<Rightarrow> (pyval \<times> pyval) list" where
  "dict_setitem [] k v = [(k, v)]"
| "dict_setitem ((k', v') # d) k v =
     (if key_norm k' = key_norm k then (k', v) # d else (k', v') # dict_setitem d k v)"

text \<open>\<open>dict(v)\<close> for an iterable of key/value pairs, element by element.\<close>

fun dict_from_seq :: "pyval list \<Rightarrow> nat \<Rightarrow> (pyval \<times> pyval) list \<Rightarrow> exn + pyval" where
  "dict_from_seq [] i d = Inr (PDict d)"
| "dict_from_seq (e # es) i d =
     (case py_iter e of
        None \<Rightarrow>
          Inl (TypeError (''cannot convert dictionary update sequence element #''
                 @ str_nat i @ '' to a sequence''))
      | Some [k, v] \<Rightarrow>
          (case unhashable k of
             Some t \<Rightarrow> Inl (TypeError (''unhashable type: '' @ quoted t))
           | None \<Rightarrow> dict_from_seq es (Suc i) (dict_setitem d k v))
      | Some kv \<Rightarrow>
          Inl (ValueError (''dictionary update sequence element #'' @ str_nat i
                 @ '' has length '' @ str_nat (length kv) @ ''; 2 is required'')))"

definition py_dict :: "pyval \<Rightarrow> exn + pyval" where
  "py_dict v =
     (case v of
        PDict kvs \<Rightarrow> Inr (PDict kvs)
      | _ \<Rightarrow>
          (case py_iter v of
             None \<Rightarrow> Inl (TypeError (quoted (type_name v) @ '' object is not iterable''))
           | Some es \<Rightarrow> dict_from_seq es 0 []))"

text \<open>\<open>hasattr(v, 'to_map')\<close> holds when \<open>to_map v\<close> is \<open>Some m\<close>; \<open>v.to_map()\<close> is then \<open>m\<close>.\<close>

fun to_map :: "pyval \<Rightarrow> pyval option" where
  "to_map (PObject cls attrs tm) = tm"
| "to_map v = None"

text \<open>Reading a data attribute, \<open>v.name\<close>.\<close>

definition py_getattr :: "pyval \<Rightarrow> string \<Rightarrow> exn + pyval" where
  "py_getattr v name =
     (case v of
        PObject cls attrs tm \<Rightarrow>
          (case map_of attrs name of
             Some x \<Rightarrow> Inr x
           | None \<Rightarrow> Inl (AttributeError (no_attribute cls name)))
      | _ \<Rightarrow> Inl (AttributeError (no_attribute (type_name v) name)))"

text \<open>\<open>SLSMemoryClient._convert_memory_result\<close> (client.py 108-112)\<close>

definition SLSMemoryClient_convert_memory_result :: "pyval \<Rightarrow> exn + pyval" where
  "SLSMemoryClient_convert_memory_result result =
     (case to_map result of
        Some m \<Rightarrow> Inr m
      | None \<Rightarrow> if truthy result then py_dict result else Inr (PDict []))"

text \<open>
  \<open>SLSMemoryClient._convert_results_list\<close> (client.py 114-116): the comprehension
  converts the elements in order and stops at the first one that raises.
\<close>

fun SLSMemoryClient_convert_each :: "pyval list \<Rightarrow> exn + pyval list" where
  "SLSMemoryClient_convert_each [] = Inr []"
| "SLSMemoryClient_convert_each (r # rs) =
     (case SLSMemoryClient_convert_memory_result r of
        Inl e \<Rightarrow> Inl e
      | Inr d \<Rightarrow>
          (case SLSMemoryClient_convert_each rs of
             Inl e \<Rightarrow> Inl e
           | Inr ds \<Rightarrow> Inr (d # ds)))"

definition SLSMemoryClient_convert_results_list :: "pyval \<Rightarrow> exn + pyval" where
  "SLSMemoryClient_convert_results_list results =
     (if truthy results then
        (case py_iter results of
           None \<Rightarrow> Inl (TypeError (quoted (type_name results) @ '' object is not iterable''))
         | Some rs \<Rightarrow>
             (case SLSMemoryClient_convert_each rs of
                Inl e \<Rightarrow> Inl e
              | Inr ds \<Rightarrow> Inr (PList ds)))
      else Inr (PList []))"

section \<open>The backend SDK\<close>

text \<open>
  The SDK (\<open>alibabacloud_sls20201230\<close>) is outside the repository.  Its request classes
  are records of the keyword arguments their constructors take; a keyword the caller
  leaves out is \<open>None\<close>, the constructors' default.
\<close>

record AddMemoriesRequest =
  add_messages :: "AddMemoriesRequestMessages list"
  add_user_id :: pyval
  add_agent_id :: pyval
  add_app_id :: pyval
  add_run_id :: pyval
  add_metadata :: pyval
  add_infer :: pyval
  add_custom_instructions :: pyval
  add_async_mode :: pyval

record GetMemoriesRequest =
  gm_user_id :: pyval
  gm_agent_id :: pyval
  gm_app_id :: pyval
  gm_run_id :: pyval
  gm_limit :: pyval

record SearchMemoriesRequest =
  sm_query :: pyval
  sm_user_id :: pyval
  sm_agent_id :: pyval
  sm_app_id :: pyval
  sm_run_id :: pyval
  sm_top_k :: pyval
  sm_rerank :: pyval

record UpdateMemoryRequest =
  um_text :: pyval
  um_metadata :: pyval

record DeleteMemoriesRequest =
  dm_user_id :: pyval
  dm_agent_id :: pyval
  dm_app_id :: pyval
  dm_run_id :: pyval

record CreateMemoryStoreRequest =
  cms_name :: pyval
  cms_description :: pyval
  cms_custom_instructions :: pyval
  cms_enable_graph :: pyval
  cms_strategy :: pyval
  cms_short_term_ttl :: pyval

record CreateProjectRequest =
  cp_project_name :: pyval
  cp_description :: pyval

record UpdateMemoryStoreRequest =
  ums_description :: pyval
  ums_custom_instructions :: pyval
  ums_enable_graph :: pyval
  ums_strategy :: pyval
  ums_short_term_ttl :: pyval

text \<open>
  One constructor per SDK operation, with the arguments the client passes.  Each
  operation exists in a blocking form (\<open>add_memories\<close>) and an awaitable form
  (\<open>add_memories_async\<close>); the form is the \<open>mode\<close> of an invocation.
\<close>

datatype call =
    add_memories pyval pyval AddMemoriesRequest
  | get_memory pyval pyval pyval
  | get_memories pyval pyval GetMemoriesRequest
  | search_memories pyval pyval SearchMemoriesRequest
  | update_memory pyval pyval pyval UpdateMemoryRequest
  | delete_memory pyval pyval pyval
  | delete_memories pyval pyval DeleteMemoriesRequest
  | get_memory_history pyval pyval pyval
  | create_memory_store pyval CreateMemoryStoreRequest
  | create_project CreateProjectRequest
  | get_memory_store pyval pyval
  | update_memory_store pyval pyval UpdateMemoryStoreRequest
  | delete_memory_store pyval pyval

datatype mode = Sync | Async

record response =
  body :: pyval
  status_code :: pyval
  headers :: pyval

text \<open>
  The SDK client object.  What the remote service answers is not decided by the
  repository, so it is a parameter: \<open>respond\<close> maps an operation and the state of the
  service (and connection) to an outcome, a raised exception or a response, and the next
  state.  The answer depends on the operation, not on the form it is invoked in.
  \<open>calls\<close> records every invocation in order, with its form.
\<close>

record 'w SLSClient =
  respond :: "call \<Rightarrow> 'w \<Rightarrow> (exn + response) \<times> 'w"
  world :: 'w
  calls :: "(mode \<times> call) list"

definition invoke :: "mode \<Rightarrow> call \<Rightarrow> 'w SLSClient \<Rightarrow> (exn + response) \<times> 'w SLSClient" where
  "invoke m k h =
     (case respond h k (world h) of
        (r, w') \<Rightarrow> (r, h\<lparr>world := w', calls := calls h @ [(m, k)]\<rparr>))"

section \<open>The clients\<close>

text \<open>
  \<open>SLSMemoryClient\<close> and \<open>AsyncSLSMemoryClient\<close> have the same three attributes,
  \<open>_client\<close>, \<open>_project\<close> and \<open>_memory_store\<close>.  A method takes \<open>self\<close> and returns what
  it returns or raises together with \<open>self\<close> afterwards.  Parameters with a default in
  the source are ordinary arguments here; the caller passes the default.
\<close>

record 'w SLSMemoryClient =
  priv_client :: "'w SLSClient"
  priv_project :: pyval
  priv_memory_store :: pyval

text \<open>\<open>self._client.op(...)\<close> and \<open>await self._client.op_async(...)\<close>\<close>

definition sdk_call ::
  "mode \<Rightarrow> call \<Rightarrow> 'w SLSMemoryClient \<Rightarrow> (exn + response) \<times> 'w SLSMemoryClient" where
  "sdk_call m k self =
     (case invoke m k (priv_client self) of (r, h) \<Rightarrow> (r, self\<lparr>priv_client := h\<rparr>))"

text \<open>The dict \<open>{"status_code": response.status_code, "headers": response.headers}\<close>\<close>

definition status_and_headers :: "response \<Rightarrow> pyval" where
  "status_and_headers response =
     PDict [(PStr ''status_code'', status_code response), (PStr ''headers'', headers response)]"

text \<open>\<open>sub in s\<close> on strings\<close>

fun str_contains :: "string \<Rightarrow> string \<Rightarrow> bool" where
  "str_contains sub [] = (sub = [])"
| "str_contains sub (c # cs) = (take (length sub) (c # cs) = sub \<or> str_contains sub cs)"

subsection \<open>SLSMemoryClient\<close>

text \<open>\<open>SLSMemoryClient.__init__\<close>: both checks precede the construction of the SDK client.\<close>

definition SLSMemoryClient_init ::
  "('c \<Rightarrow> exn + 'w SLSClient) \<Rightarrow> 'c \<Rightarrow> pyval \<Rightarrow> pyval \<Rightarrow> exn + 'w SLSMemoryClient" where
  "SLSMemoryClient_init new_SLSClient config project memory_store =
     (if \<not> truthy project then Inl (ValidationError ''project is required'')
      else if \<not> truthy memory_store then Inl (ValidationError ''memory_store is required'')
      else
        (case new_SLSClient config of
           Inl e \<Rightarrow> Inl e
         | Inr h \<Rightarrow>
             Inr \<lparr>priv_client = h, priv_project = project, priv_memory_store = memory_store\<rparr>))"

text \<open>The read-only properties \<open>project\<close> and \<open>memory_store\<close>.\<close>

definition SLSMemoryClient_project :: "'w SLSMemoryClient \<Rightarrow> pyval" where
  "SLSMemoryClient_project self = priv_project self"

definition SLSMemoryClient_memory_store :: "'w SLSMemoryClient \<Rightarrow> pyval" where
  "SLSMemoryClient_memory_store self = priv_memory_store self"

text \<open>\<open>SLSMemoryClient.add\<close>\<close>

definition SLSMemoryClient_add ::
  "'w SLSMemoryClient \<Rightarrow> pyval \<Rightarrow> pyval \<Rightarrow> pyval \<Rightarrow> pyval \<Rightarrow> pyval \<Rightarrow> pyval \<Rightarrow> pyval \<Rightarrow> pyval
     \<Rightarrow> (exn + pyval) \<times> 'w SLSMemoryClient" where
  "SLSMemoryClient_add self messages user_id agent_id app_id run_id metadata infer async_mode =
     (case SLSMemoryClient_prepare_messages messages of
        Inl e \<Rightarrow> (Inl e, self)
      | Inr sls_messages \<Rightarrow>
          (let request =
                 \<lparr>add_messages = sls_messages, add_user_id = user_id, add_agent_id = agent_id,
                  add_app_id = app_id, add_run_id = run_id, add_metadata = metadata,
                  add_infer = infer, add_custom_instructions = PNone,
                  add_async_mode = async_mode\<rparr>
           in case sdk_call Sync
                     (add_memories (priv_project self) (priv_memory_store self) request) self of
                (Inl e, self') \<Rightarrow> (Inl e, self')
              | (Inr response, self') \<Rightarrow>
                  if truthy (body response) then
                    (SLSMemoryClient_convert_memory_result (body response), self')
                  else (Inr (PDict [(PStr ''results'', PList [])]), self')))"

text \<open>\<open>SLSMemoryClient.get\<close>\<close>

definition SLSMemoryClient_get ::
  "'w SLSMemoryClient \<Rightarrow> pyval \<Rightarrow> (exn + pyval) \<times> 'w SLSMemoryClient" where
  "SLSMemoryClient_get self memory_id =
     (if \<not> truthy memory_id then (Inl (ValidationError ''memory_id is required''), self)
      else
        (case sdk_call Sync
                (get_memory (priv_project self) (priv_memory_store self) memory_id) self of
           (Inl e, self') \<Rightarrow> (Inl e, self')
         | (Inr response, self') \<Rightarrow>
             if truthy (body response) then
               (SLSMemoryClient_convert_memory_result (body response), self')
             else (Inr (PDict []), self')))"

text \<open>\<open>SLSMemoryClient.get_all\<close>\<close>

definition SLSMemoryClient_get_all ::
  "'w SLSMemoryClient \<Rightarrow> pyval \<Rightarrow> pyval \<Rightarrow> pyval \<Rightarrow> pyval \<Rightarrow> pyval
     \<Rightarrow> (exn + pyval) \<times> 'w SLSMemoryClient" where
  "SLSMemoryClient_get_all self user_id agent_id app_id run_id limit =
     (let request =
            \<lparr>gm_user_id = user_id, gm_agent_id = agent_id, gm_app_id = app_id,
             gm_run_id = run_id, gm_limit = limit\<rparr>
      in case sdk_call Sync
                (get_memories (priv_project self) (priv_memory_store self) request) self of
           (Inl e, self') \<Rightarrow> (Inl e, self')
         | (Inr response, self') \<Rightarrow>
             if truthy (body response) then
               (case py_getattr (body response) ''results'' of
                  Inl e \<Rightarrow> (Inl e, self')
                | Inr results \<Rightarrow>
                    if truthy results then
                      (case SLSMemoryClient_convert_results_list results of
                         Inl e \<Rightarrow> (Inl e, self')
                       | Inr rs \<Rightarrow> (Inr (PDict [(PStr ''results'', rs)]), self'))
                    else (Inr (PDict [(PStr ''results'', PList [])]), self'))
             else (Inr (PDict [(PStr ''results'', PList [])]), self'))"

text \<open>\<open>SLSMemoryClient.search\<close>\<close>

definition SLSMemoryClient_search ::
  "'w SLSMemoryClient \<Rightarrow> pyval \<Rightarrow> pyval \<Rightarrow> pyval \<Rightarrow> pyval \<Rightarrow> pyval \<Rightarrow> pyval \<Rightarrow> pyval
     \<Rightarrow> (exn + pyval) \<times> 'w SLSMemoryClient" where
  "SLSMemoryClient_search self query user_id agent_id app_id run_id top_k rerank =
     (if \<not> truthy query then (Inl (ValidationError ''query is required''), self)
      else
        (let request =
               \<lparr>sm_query = query, sm_user_id = user_id, sm_agent_id = agent_id,
                sm_app_id = app_id, sm_run_id = run_id, sm_top_k = top_k, sm_rerank = rerank\<rparr>
         in case sdk_call Sync
                   (search_memories (priv_project self) (priv_memory_store self) request) self of
              (Inl e, self') \<Rightarrow> (Inl e, self')
            | (Inr response, self') \<Rightarrow>
                if truthy (body response) then
                  (case py_getattr (body response) ''results'' of
                     Inl e \<Rightarrow> (Inl e, self')
                   | Inr results \<Rightarrow>
                       if truthy results then
                         (case SLSMemoryClient_convert_results_list results of
                            Inl e \<Rightarrow> (Inl e, self')
                          | Inr rs \<Rightarrow> (Inr (PDict [(PStr ''results'', rs)]), self'))
                       else (Inr (PDict [(PStr ''results'', PList [])]), self'))
                else (Inr (PDict [(PStr ''results'', PList [])]), self')))"

text \<open>\<open>SLSMemoryClient.update\<close>\<close>

definition SLSMemoryClient_update ::
  "'w SLSMemoryClient \<Rightarrow> pyval \<Rightarrow> pyval \<Rightarrow> pyval \<Rightarrow> (exn + pyval) \<times> 'w SLSMemoryClient" where
  "SLSMemoryClient_update self memory_id text metadata =
     (if \<not> truthy memory_id then (Inl (ValidationError ''memory_id is required''), self)
      else if text = PNone \<and> metadata = PNone then
        (Inl (ValidationError ''Either text or metadata must be provided for update.''), self)
      else
        (let request = \<lparr>um_text = text, um_metadata = metadata\<rparr>
         in case sdk_call Sync
                   (update_memory (priv_project self) (priv_memory_store self) memory_id request)
                   self of
              (Inl e, self') \<Rightarrow> (Inl e, self')
            | (Inr response, self') \<Rightarrow> (Inr (status_and_headers response), self')))"

text \<open>\<open>SLSMemoryClient.delete\<close>\<close>

definition SLSMemoryClient_delete ::
  "'w SLSMemoryClient \<Rightarrow> pyval \<Rightarrow> (exn + pyval) \<times> 'w SLSMemoryClient" where
  "SLSMemoryClient_delete self memory_id =
     (if \<not> truthy memory_id then (Inl (ValidationError ''memory_id is required''), self)
      else
        (case sdk_call Sync
                (delete_memory (priv_project self) (priv_memory_store self) memory_id) self of
           (Inl e, self') \<Rightarrow> (Inl e, self')
         | (Inr response, self') \<Rightarrow> (Inr (status_and_headers response), self')))"

text \<open>\<open>SLSMemoryClient.delete_all\<close>\<close>

definition SLSMemoryClient_delete_all ::
  "'w SLSMemoryClient \<Rightarrow> pyval \<Rightarrow> pyval \<Rightarrow> pyval \<Rightarrow> pyval
     \<Rightarrow> (exn + pyval) \<times> 'w SLSMemoryClient" where
  "SLSMemoryClient_delete_all self user_id agent_id app_id run_id =
     (let request =
            \<lparr>dm_user_id = user_id, dm_agent_id = agent_id, dm_app_id = app_id,
             dm_run_id = run_id\<rparr>
      in case sdk_call Sync
                (delete_memories (priv_project self) (priv_memory_store self) request) self of
           (Inl e, self') \<Rightarrow> (Inl e, self')
         | (Inr response, self') \<Rightarrow> (Inr (status_and_headers response), self'))"

text \<open>\<open>SLSMemoryClient.history\<close>\<close>

definition SLSMemoryClient_history ::
  "'w SLSMemoryClient \<Rightarrow> pyval \<Rightarrow> (exn + pyval) \<times> 'w SLSMemoryClient" where
  "SLSMemoryClient_history self memory_id =
     (if \<not> truthy memory_id then (Inl (ValidationError ''memory_id is required''), self)
      else
        (case sdk_call Sync
                (get_memory_history (priv_project self) (priv_memory_store self) memory_id)
                self of
           (Inl e, self') \<Rightarrow> (Inl e, self')
         | (Inr response, self') \<Rightarrow>
             if truthy (body response) then
               (SLSMemoryClient_convert_results_list (body response), self')
             else (Inr (PList []), self')))"

text \<open>
  \<open>SLSMemoryClient.create_memory_store\<close>: the \<open>try\<close> covers the first call only; the
  handler re-raises unless the text of the exception contains \<open>ProjectNotExist\<close>, and
  nothing catches what the handler's own two calls raise.
\<close>

definition SLSMemoryClient_create_memory_store ::
  "'w SLSMemoryClient \<Rightarrow> pyval \<Rightarrow> pyval \<Rightarrow> pyval \<Rightarrow> pyval \<Rightarrow> pyval
     \<Rightarrow> (exn + pyval) \<times> 'w SLSMemoryClient" where
  "SLSMemoryClient_create_memory_store self description custom_instructions enable_graph strategy
       short_term_ttl =
     (let store_name = priv_memory_store self;
          request =
            \<lparr>cms_name = store_name, cms_description = description,
             cms_custom_instructions = custom_instructions, cms_enable_graph = enable_graph,
             cms_strategy = strategy, cms_short_term_ttl = short_term_ttl\<rparr>
      in case sdk_call Sync (create_memory_store (priv_project self) request) self of
           (Inr response, self1) \<Rightarrow> (Inr (status_and_headers response), self1)
         | (Inl e, self1) \<Rightarrow>
             if \<not> str_contains ''ProjectNotExist'' (str_exn e) then (Inl e, self1)
             else
               (case sdk_call Sync
                       (create_project
                          \<lparr>cp_project_name = priv_project self1,
                           cp_description = PStr ''Auto-created by SLS Memory SDK''\<rparr>)
                       self1 of
                  (Inl e2, self2) \<Rightarrow> (Inl e2, self2)
                | (Inr created, self2) \<Rightarrow>
                    (case sdk_call Sync
                            (create_memory_store (priv_project self2) request) self2 of
                       (Inl e3, self3) \<Rightarrow> (Inl e3, self3)
                     | (Inr response, self3) \<Rightarrow>
                         (Inr (status_and_headers response), self3))))"

text \<open>\<open>SLSMemoryClient.describe_memory_store\<close>\<close>

definition SLSMemoryClient_describe_memory_store ::
  "'w SLSMemoryClient \<Rightarrow> (exn + pyval) \<times> 'w SLSMemoryClient" where
  "SLSMemoryClient_describe_memory_store self =
     (case sdk_call Sync (get_memory_store (priv_project self) (priv_memory_store self)) self of
        (Inl e, self') \<Rightarrow> (Inl e, self')
      | (Inr response, self') \<Rightarrow>
          if truthy (body response) then
            (SLSMemoryClient_convert_memory_result (body response), self')
          else (Inr (PDict []), self'))"

text \<open>\<open>SLSMemoryClient.update_memory_store\<close>\<close>

definition SLSMemoryClient_update_memory_store ::
  "'w SLSMemoryClient \<Rightarrow> pyval \<Rightarrow> pyval \<Rightarrow> pyval \<Rightarrow> pyval \<Rightarrow> pyval
     \<Rightarrow> (exn + pyval) \<times> 'w SLSMemoryClient" where
  "SLSMemoryClient_update_memory_store self description custom_instructions enable_graph strategy
       short_term_ttl =
     (let request =
            \<lparr>ums_description = description, ums_custom_instructions = custom_instructions,
             ums_enable_graph = enable_graph, ums_strategy = strategy,
             ums_short_term_ttl = short_term_ttl\<rparr>
      in case sdk_call Sync
                (update_memory_store (priv_project self) (priv_memory_store self) request)
                self of
           (Inl e, self') \<Rightarrow> (Inl e, self')
         | (Inr response, self') \<Rightarrow> (Inr (status_and_headers response), self'))"

text \<open>\<open>SLSMemoryClient.delete_memory_store\<close>\<close>

definition SLSMemoryClient_delete_memory_store ::
  "'w SLSMemoryClient \<Rightarrow> (exn + pyval) \<times> 'w SLSMemoryClient" where
  "SLSMemoryClient_delete_memory_store self =
     (case sdk_call Sync
             (delete_memory_store (priv_project self) (priv_memory_store self)) self of
        (Inl e, self') \<Rightarrow> (Inl e, self')
      | (Inr response, self') \<Rightarrow> (Inr (status_and_headers response), self'))"

subsection \<open>AsyncSLSMemoryClient\<close>

text \<open>
  \<open>AsyncSLSMemoryClient._prepare_messages\<close> (client.py 679-698).  The loop appends one request
  message per element; the first element without \<open>get\<close> ends it with the interpreter's
  error.
\<close>

fun AsyncSLSMemoryClient_prepare_loop ::
  "pyval list \<Rightarrow> AddMemoriesRequestMessages list \<Rightarrow> exn + AddMemoriesRequestMessages list" where
  "AsyncSLSMemoryClient_prepare_loop [] result = Inr result"
| "AsyncSLSMemoryClient_prepare_loop (msg # rest) result =
     (case py_get msg ''role'' (PStr ''user'') of
        Inl e \<Rightarrow> Inl e
      | Inr r \<Rightarrow>
          (case py_get msg ''content'' (PStr []) of
             Inl e \<Rightarrow> Inl e
           | Inr c \<Rightarrow> AsyncSLSMemoryClient_prepare_loop rest (result @ [\<lparr>role = r, content = c\<rparr>])))"

definition AsyncSLSMemoryClient_prepare_messages ::
  "pyval \<Rightarrow> exn + AddMemoriesRequestMessages list" where
  "AsyncSLSMemoryClient_prepare_messages messages =
     (if is_str messages then
        AsyncSLSMemoryClient_prepare_loop
          [PDict [(PStr ''role'', PStr ''user''), (PStr ''content'', messages)]] []
      else if is_dict messages then
        AsyncSLSMemoryClient_prepare_loop [messages] []
      else if \<not> is_list messages then
        Inl (ValidationError
          (''messages must be str, dict, or list[dict], got '' @ type_name messages))
      else
        (case messages of PList xs \<Rightarrow> AsyncSLSMemoryClient_prepare_loop xs []))"

text \<open>\<open>AsyncSLSMemoryClient._convert_memory_result\<close> (client.py 700-704)\<close>

definition AsyncSLSMemoryClient_convert_memory_result :: "pyval \<Rightarrow> exn + pyval" where
  "AsyncSLSMemoryClient_convert_memory_result result =
     (case to_map result of
        Some m \<Rightarrow> Inr m
      | None \<Rightarrow> if truthy result then py_dict result else Inr (PDict []))"

text \<open>
  \<open>AsyncSLSMemoryClient._convert_results_list\<close> (client.py 706-708): the comprehension
  converts the elements in order and stops at the first one that raises.
\<close>

fun AsyncSLSMemoryClient_convert_each :: "pyval list \<Rightarrow> exn + pyval list" where
  "AsyncSLSMemoryClient_convert_each [] = Inr []"
| "AsyncSLSMemoryClient_convert_each (r # rs) =
     (case AsyncSLSMemoryClient_convert_memory_result r of
        Inl e \<Rightarrow> Inl e
      | Inr d \<Rightarrow>
          (case AsyncSLSMemoryClient_convert_each rs of
             Inl e \<Rightarrow> Inl e
           | Inr ds \<Rightarrow> Inr (d # ds)))"

definition AsyncSLSMemoryClient_convert_results_list :: "pyval \<Rightarrow> exn + pyval" where
  "AsyncSLSMemoryClient_convert_results_list results =
     (if truthy results then
        (case py_iter results of
           None \<Rightarrow> Inl (TypeError (quoted (type_name results) @ '' object is not iterable''))
         | Some rs \<Rightarrow>
             (case AsyncSLSMemoryClient_convert_each rs of
                Inl e \<Rightarrow> Inl e
              | Inr ds \<Rightarrow> Inr (PList ds)))
      else Inr (PList []))"

text \<open>\<open>AsyncSLSMemoryClient.__init__\<close>: both checks precede the construction of the SDK client.\<close>

definition AsyncSLSMemoryClient_init ::
  "('c \<Rightarrow> exn + 'w SLSClient) \<Rightarrow> 'c \<Rightarrow> pyval \<Rightarrow> pyval \<Rightarrow> exn + 'w SLSMemoryClient" where
  "AsyncSLSMemoryClient_init new_SLSClient config project memory_store =
     (if \<not> truthy project then Inl (ValidationError ''project is required'')
      else if \<not> truthy memory_store then Inl (ValidationError ''memory_store is required'')
      else
        (case new_SLSClient config of
           Inl e \<Rightarrow> Inl e
         | Inr h \<Rightarrow>
             Inr \<lparr>priv_client = h, priv_project = project, priv_memory_store = memory_store\<rparr>))"

text \<open>The read-only properties \<open>project\<close> and \<open>memory_store\<close>.\<close>

definition AsyncSLSMemoryClient_project :: "'w SLSMemoryClient \<Rightarrow> pyval" where
  "AsyncSLSMemoryClient_project self = priv_project self"

definition AsyncSLSMemoryClient_memory_store :: "'w SLSMemoryClient \<Rightarrow> pyval" where
  "AsyncSLSMemoryClient_memory_store self = priv_memory_store self"

text \<open>\<open>AsyncSLSMemoryClient.add\<close>\<close>

definition AsyncSLSMemoryClient_add ::
  "'w SLSMemoryClient \<Rightarrow> pyval \<Rightarrow> pyval \<Rightarrow> pyval \<Rightarrow> pyval \<Rightarrow> pyval \<Rightarrow> pyval \<Rightarrow> pyval \<Rightarrow> pyval \<Rightarrow> pyval
     \<Rightarrow> (exn + pyval) \<times> 'w SLSMemoryClient" where
  "AsyncSLSMemoryClient_add self messages user_id agent_id app_id run_id metadata infer custom_instructions async_mode =
     (case AsyncSLSMemoryClient_prepare_messages messages of
        Inl e \<Rightarrow> (Inl e, self)
      | Inr sls_messages \<Rightarrow>
          (let request =
                 \<lparr>add_messages = sls_messages, add_user_id = user_id, add_agent_id = agent_id,
                  add_app_id = app_id, add_run_id = run_id, add_metadata = metadata,
                  add_infer = infer, add_custom_instructions = custom_instructions,
                  add_async_mode = async_mode\<rparr>
           in case sdk_call Async
                     (add_memories (priv_project self) (priv_memory_store self) request) self of
                (Inl e, self') \<Rightarrow> (Inl e, self')
              | (Inr response, self') \<Rightarrow>
                  if truthy (body response) then
                    (AsyncSLSMemoryClient_convert_memory_result (body response), self')
                  else (Inr (PDict [(PStr ''results'', PList [])]), self')))"

text \<open>\<open>AsyncSLSMemoryClient.get\<close>\<close>

definition AsyncSLSMemoryClient_get ::
  "'w SLSMemoryClient \<Rightarrow> pyval \<Rightarrow> (exn + pyval) \<times> 'w SLSMemoryClient" where
  "AsyncSLSMemoryClient_get self memory_id =
     (if \<not> truthy memory_id then (Inl (ValidationError ''memory_id is required''), self)
      else
        (case sdk_call Async
                (get_memory (priv_project self) (priv_memory_store self) memory_id) self of
           (Inl e, self') \<Rightarrow> (Inl e, self')
         | (Inr response, self') \<Rightarrow>
             if truthy (body response) then
               (AsyncSLSMemoryClient_convert_memory_result (body response), self')
             else (Inr (PDict []), self')))"

text \<open>\<open>AsyncSLSMemoryClient.get_all\<close>\<close>

definition AsyncSLSMemoryClient_get_all ::
  "'w SLSMemoryClient \<Rightarrow> pyval \<Rightarrow> pyval \<Rightarrow> pyval \<Rightarrow> pyval \<Rightarrow> pyval
     \<Rightarrow> (exn + pyval) \<times> 'w SLSMemoryClient" where
  "AsyncSLSMemoryClient_get_all self user_id agent_id app_id run_id limit =
     (let request =
            \<lparr>gm_user_id = user_id, gm_agent_id = agent_id, gm_app_id = app_id,
             gm_run_id = run_id, gm_limit = limit\<rparr>
      in case sdk_call Async
                (get_memories (priv_project self) (priv_memory_store self) request) self of
           (Inl e, self') \<Rightarrow> (Inl e, self')
         | (Inr response, self') \<Rightarrow>
             if truthy (body response) then
               (case py_getattr (body response) ''results'' of
                  Inl e \<Rightarrow> (Inl e, self')
                | Inr results \<Rightarrow>
                    if truthy results then
                      (case AsyncSLSMemoryClient_convert_results_list results of
                         Inl e \<Rightarrow> (Inl e, self')
                       | Inr rs \<Rightarrow> (Inr (PDict [(PStr ''results'', rs)]), self'))
                    else (Inr (PDict [(PStr ''results'', PList [])]), self'))
             else (Inr (PDict [(PStr ''results'', PList [])]), self'))"

text \<open>\<open>AsyncSLSMemoryClient.search\<close>\<close>

definition AsyncSLSMemoryClient_search ::
  "'w SLSMemoryClient \<Rightarrow> pyval \<Rightarrow> pyval \<Rightarrow> pyval \<Rightarrow> pyval \<Rightarrow> pyval \<Rightarrow> pyval \<Rightarrow> pyval
     \<Rightarrow> (exn + pyval) \<times> 'w SLSMemoryClient" where
  "AsyncSLSMemoryClient_search self query user_id agent_id app_id run_id top_k rerank =
     (if \<not> truthy query then (Inl (ValidationError ''query is required''), self)
      else
        (let request =
               \<lparr>sm_query = query, sm_user_id = user_id, sm_agent_id = agent_id,
                sm_app_id = app_id, sm_run_id = run_id, sm_top_k = top_k, sm_rerank = rerank\<rparr>
         in case sdk_call Async
                   (search_memories (priv_project self) (priv_memory_store self) request) self of
              (Inl e, self') \<Rightarrow> (Inl e, self')
            | (Inr response, self') \<Rightarrow>
                if truthy (body response) then
                  (case py_getattr (body response) ''results'' of
                     Inl e \<Rightarrow> (Inl e, self')
                   | Inr results \<Rightarrow>
                       if truthy results then
                         (case AsyncSLSMemoryClient_convert_results_list results of
                            Inl e \<Rightarrow> (Inl e, self')
                          | Inr rs \<Rightarrow> (Inr (PDict [(PStr ''results'', rs)]), self'))
                       else (Inr (PDict [(PStr ''results'', PList [])]), self'))
                else (Inr (PDict [(PStr ''results'', PList [])]), self')))"

text \<open>\<open>AsyncSLSMemoryClient.update\<close>\<close>

definition AsyncSLSMemoryClient_update ::
  "'w SLSMemoryClient \<Rightarrow> pyval \<Rightarrow> pyval \<Rightarrow> pyval \<Rightarrow> (exn + pyval) \<times> 'w SLSMemoryClient" where
  "AsyncSLSMemoryClient_update self memory_id text metadata =
     (if \<not> truthy memory_id then (Inl (ValidationError ''memory_id is required''), self)
      else if text = PNone \<and> metadata = PNone then
        (Inl (ValidationError ''Either text or metadata must be provided for update.''), self)
      else
        (let request = \<lparr>um_text = text, um_metadata = metadata\<rparr>
         in case sdk_call Async
                   (update_memory (priv_project self) (priv_memory_store self) memory_id request)
                   self of
              (Inl e, self') \<Rightarrow> (Inl e, self')
            | (Inr response, self') \<Rightarrow> (Inr (status_and_headers response), self')))"

text \<open>\<open>AsyncSLSMemoryClient.delete\<close>\<close>

definition AsyncSLSMemoryClient_delete ::
  "'w SLSMemoryClient \<Rightarrow> pyval \<Rightarrow> (exn + pyval) \<times> 'w SLSMemoryClient" where
  "AsyncSLSMemoryClient_delete self memory_id =
     (if \<not> truthy memory_id then (Inl (ValidationError ''memory_id is required''), self)
      else
        (case sdk_call Async
                (delete_memory (priv_project self) (priv_memory_store self) memory_id) self of
           (Inl e, self') \<Rightarrow> (Inl e, self')
         | (Inr response, self') \<Rightarrow> (Inr (status_and_headers response), self')))"

text \<open>\<open>AsyncSLSMemoryClient.delete_all\<close>\<close>

definition AsyncSLSMemoryClient_delete_all ::
  "'w SLSMemoryClient \<Rightarrow> pyval \<Rightarrow> pyval \<Rightarrow> pyval \<Rightarrow> pyval
     \<Rightarrow> (exn + pyval) \<times> 'w SLSMemoryClient" where
  "AsyncSLSMemoryClient_delete_all self user_id agent_id app_id run_id =
     (let request =
            \<lparr>dm_user_id = user_id, dm_agent_id = agent_id, dm_app_id = app_id,
             dm_run_id = run_id\<rparr>
      in case sdk_call Async
                (delete_memories (priv_project self) (priv_memory_store self) request) self of
           (Inl e, self') \<Rightarrow> (Inl e, self')
         | (Inr response, self') \<Rightarrow> (Inr (status_and_headers response), self'))"

text \<open>\<open>AsyncSLSMemoryClient.history\<close>\<close>

definition AsyncSLSMemoryClient_history ::
  "'w SLSMemoryClient \<Rightarrow> pyval \<Rightarrow> (exn + pyval) \<times> 'w SLSMemoryClient" where
  "AsyncSLSMemoryClient_history self memory_id =
     (if \<not> truthy memory_id then (Inl (ValidationError ''memory_id is required''), self)
      else
        (case sdk_call Async
                (get_memory_history (priv_project self) (priv_memory_store self) memory_id)
                self of
           (Inl e, self') \<Rightarrow> (Inl e, self')
         | (Inr response, self') \<Rightarrow>
             if truthy (body response) then
               (AsyncSLSMemoryClient_convert_results_list (body response), self')
             else (Inr (PList []), self')))"

text \<open>
  \<open>AsyncSLSMemoryClient.create_memory_store\<close>: the \<open>try\<close> covers the first call only; the
  handler re-raises unless the text of the exception contains \<open>ProjectNotExist\<close>, and
  nothing catches what the handler's own two calls raise.
\<close>

definition AsyncSLSMemoryClient_create_memory_store ::
  "'w SLSMemoryClient \<Rightarrow> pyval \<Rightarrow> pyval \<Rightarrow> pyval \<Rightarrow> pyval \<Rightarrow> pyval
     \<Rightarrow> (exn + pyval) \<times> 'w SLSMemoryClient" where
  "AsyncSLSMemoryClient_create_memory_store self description custom_instructions enable_graph strategy
       short_term_ttl =
     (let store_name = priv_memory_store self;
          request =
            \<lparr>cms_name = store_name, cms_description = description,
             cms_custom_instructions = custom_instructions, cms_enable_graph = enable_graph,
             cms_strategy = strategy, cms_short_term_ttl = short_term_ttl\<rparr>
      in case sdk_call Async (create_memory_store (priv_project self) request) self of
           (Inr response, self1) \<Rightarrow> (Inr (status_and_headers response), self1)
         | (Inl e, self1) \<Rightarrow>
             if \<not> str_contains ''ProjectNotExist'' (str_exn e) then (Inl e, self1)
             else
               (case sdk_call Async
                       (create_project
                          \<lparr>cp_project_name = priv_project self1,
                           cp_description = PStr ''Auto-created by SLS Memory SDK''\<rparr>)
                       self1 of
                  (Inl e2, self2) \<Rightarrow> (Inl e2, self2)
                | (Inr created, self2) \<Rightarrow>
                    (case sdk_call Async
                            (create_memory_store (priv_project self2) request) self2 of
                       (Inl e3, self3) \<Rightarrow> (Inl e3, self3)
                     | (Inr response, self3) \<Rightarrow>
                         (Inr (status_and_headers response), self3))))"

text \<open>\<open>AsyncSLSMemoryClient.describe_memory_store\<close>\<close>

definition AsyncSLSMemoryClient_describe_memory_store ::
  "'w SLSMemoryClient \<Rightarrow> (exn + pyval) \<times> 'w SLSMemoryClient" where
  "AsyncSLSMemoryClient_describe_memory_store self =
     (case sdk_call Async (get_memory_store (priv_project self) (priv_memory_store self)) self of
        (Inl e, self') \<Rightarrow> (Inl e, self')
      | (Inr response, self') \<Rightarrow>
          if truthy (body response) then
            (AsyncSLSMemoryClient_convert_memory_result (body response), self')
          else (Inr (PDict []), self'))"

text \<open>\<open>AsyncSLSMemoryClient.update_memory_store\<close>\<close>

definition AsyncSLSMemoryClient_update_memory_store ::
  "'w SLSMemoryClient \<Rightarrow> pyval \<Rightarrow> pyval \<Rightarrow> pyval \<Rightarrow> pyval \<Rightarrow> pyval
     \<Rightarrow> (exn + pyval) \<times> 'w SLSMemoryClient" where
  "AsyncSLSMemoryClient_update_memory_store self description custom_instructions enable_graph strategy
       short_term_ttl =
     (let request =
            \<lparr>ums_description = description, ums_custom_instructions = custom_instructions,
             ums_enable_graph = enable_graph, ums_strategy = strategy,
             ums_short_term_ttl = short_term_ttl\<rparr>
      in case sdk_call Async
                (update_memory_store (priv_project self) (priv_memory_store self) request)
                self of
           (Inl e, self') \<Rightarrow> (Inl e, self')
         | (Inr response, self') \<Rightarrow> (Inr (status_and_headers response), self'))"

text \<open>\<open>AsyncSLSMemoryClient.delete_memory_store\<close>\<close>

definition AsyncSLSMemoryClient_delete_memory_store ::
  "'w SLSMemoryClient \<Rightarrow> (exn + pyval) \<times> 'w SLSMemoryClient" where
  "AsyncSLSMemoryClient_delete_memory_store self =
     (case sdk_call Async
             (delete_memory_store (priv_project self) (priv_memory_store self)) self of
        (Inl e, self') \<Rightarrow> (Inl e, self')
      | (Inr response, self') \<Rightarrow> (Inr (status_and_headers response), self'))"

subsection \<open>Positional calls of \<open>add\<close>\<close>




section \<open>Vocabulary of the statements\<close>

text \<open>What the backend answers to an operation in the state the client's connection is in.\<close>

definition answers :: "'w SLSMemoryClient \<Rightarrow> call \<Rightarrow> exn + response" where
  "answers self k = fst (respond (priv_client self) k (world (priv_client self)))"


text \<open>The binding of a client: its project and its memory store.\<close>

definition binding :: "'w SLSMemoryClient \<Rightarrow> pyval \<times> pyval" where
  "binding self = (priv_project self, priv_memory_store self)"

text \<open>The two requests \<open>create_memory_store\<close> builds, as operations of the SDK.\<close>

abbreviation create_store_call ::
  "'w SLSMemoryClient \<Rightarrow> pyval \<Rightarrow> pyval \<Rightarrow> pyval \<Rightarrow> pyval \<Rightarrow> pyval \<Rightarrow> call" where
  "create_store_call self description custom_instructions enable_graph strategy short_term_ttl \<equiv>
     create_memory_store (priv_project self)
       \<lparr>cms_name = priv_memory_store self, cms_description = description,
        cms_custom_instructions = custom_instructions, cms_enable_graph = enable_graph,
        cms_strategy = strategy, cms_short_term_ttl = short_term_ttl\<rparr>"

abbreviation create_project_call :: "'w SLSMemoryClient \<Rightarrow> call" where
  "create_project_call self \<equiv>
     create_project
       \<lparr>cp_project_name = priv_project self,
        cp_description = PStr ''Auto-created by SLS Memory SDK''\<rparr>"

section \<open>A scripted backend\<close>

text \<open>
  A backend for concrete runs: it answers the operations invoked on it with the outcomes
  of a script, in order, whatever the operation.
\<close>

definition scripted :: "(exn + response) list \<Rightarrow> (exn + response) list SLSClient" where
  "scripted script =
     \<lparr>respond = (\<lambda>k w. case w of [] \<Rightarrow> (Inl (SDKError ''script exhausted''), [])
                                | r # rs \<Rightarrow> (r, rs)),
      world = script, calls = []\<rparr>"

definition demo_client :: "(exn + response) list \<Rightarrow> (exn + response) list SLSMemoryClient" where
  "demo_client script =
     \<lparr>priv_client = scripted script, priv_project = PStr ''my-project'',
      priv_memory_store = PStr ''my-store''\<rparr>"

definition ok_response :: "pyval \<Rightarrow> response" where
  "ok_response b = \<lparr>body = b, status_code = PInt 200, headers = PDict []\<rparr>"

text \<open>A constructor of SDK clients that connects every configuration to an empty script.\<close>

definition connect :: "unit \<Rightarrow> exn + (exn + response) list SLSClient" where
  "connect config = Inr (scripted [])"

text \<open>
  A client whose project and memory store are empty strings.  No constructor returns it;
  it is the state of a client whose private attributes were assigned from outside.
\<close>

definition unbound_client :: "(exn + response) list \<Rightarrow> (exn + response) list SLSMemoryClient" where
  "unbound_client script =
     \<lparr>priv_client = scripted script, priv_project = PStr [], priv_memory_store = PStr []\<rparr>"

section \<open>Properties of message normalisation\<close>

lemma py_get_dict:
  "py_get (PDict d) key dflt = Inr (case map_of d (PStr key) of None \<Rightarrow> dflt | Some x \<Rightarrow> x)"
  by (simp add: py_get_def)


lemma sync_loop_dicts:
  "SLSMemoryClient_prepare_loop (map PDict ds) acc =
     Inr (acc @ map (\<lambda>d. \<lparr>role = (case map_of d (PStr ''role'') of None \<Rightarrow> PStr ''user'' | Some v \<Rightarrow> v),
                          content = (case map_of d (PStr ''content'') of None \<Rightarrow> PStr [] | Some v \<Rightarrow> v)\<rparr>) ds)"
  by (induction ds arbitrary: acc) (simp_all add: py_get_dict)










section \<open>Properties of an SDK invocation\<close>

lemma sdk_call_outcome: "fst (sdk_call m k self) = answers self k"
  by (simp add: sdk_call_def invoke_def answers_def split: prod.splits)

lemma sdk_call_calls:
  "calls (priv_client (snd (sdk_call m k self))) = calls (priv_client self) @ [(m, k)]"
  by (simp add: sdk_call_def invoke_def split: prod.splits)

lemma sdk_call_project: "priv_project (snd (sdk_call m k self)) = priv_project self"
  by (simp add: sdk_call_def split: prod.splits)

lemma sdk_call_memory_store: "priv_memory_store (snd (sdk_call m k self)) = priv_memory_store self"
  by (simp add: sdk_call_def split: prod.splits)

lemma sdk_call_respond:
  "respond (priv_client (snd (sdk_call m k self))) = respond (priv_client self)"
  by (simp add: sdk_call_def invoke_def split: prod.splits)

section \<open>Creating the memory store\<close>

lemma sync_create_first_succeeds:
  "(answers self (create_store_call self description custom_instructions enable_graph strategy short_term_ttl) = Inr response \<longrightarrow>
      fst (SLSMemoryClient_create_memory_store self
              description custom_instructions enable_graph strategy short_term_ttl) = Inr (status_and_headers response)
      \<and> calls (priv_client (snd (SLSMemoryClient_create_memory_store self
              description custom_instructions enable_graph strategy short_term_ttl))) =
          calls (priv_client self) @
            [(Sync, create_store_call self description custom_instructions enable_graph strategy short_term_ttl)])"
  by (auto simp: SLSMemoryClient_create_memory_store_def sdk_call_def invoke_def answers_def Let_def
        split: prod.splits sum.splits)

lemma sync_create_other_failure:
  "(answers self (create_store_call self description custom_instructions enable_graph strategy short_term_ttl) = Inl e
        \<and> \<not> str_contains ''ProjectNotExist'' (str_exn e) \<longrightarrow>
      fst (SLSMemoryClient_create_memory_store self
              description custom_instructions enable_graph strategy short_term_ttl) = Inl e
      \<and> calls (priv_client (snd (SLSMemoryClient_create_memory_store self
              description custom_instructions enable_graph strategy short_term_ttl))) =
          calls (priv_client self) @
            [(Sync, create_store_call self description custom_instructions enable_graph strategy short_term_ttl)])"
  by (auto simp: SLSMemoryClient_create_memory_store_def sdk_call_def invoke_def answers_def Let_def
        split: prod.splits sum.splits)

lemma sync_create_project_fails:
  "(answers self (create_store_call self description custom_instructions enable_graph strategy short_term_ttl) = Inl e
        \<and> str_contains ''ProjectNotExist'' (str_exn e)
        \<and> answers (snd (sdk_call Sync (create_store_call self description custom_instructions enable_graph strategy short_term_ttl) self))
              (create_project_call self) = Inl e_project \<longrightarrow>
      fst (SLSMemoryClient_create_memory_store self
              description custom_instructions enable_graph strategy short_term_ttl) = Inl e_project
      \<and> calls (priv_client (snd (SLSMemoryClient_create_memory_store self
              description custom_instructions enable_graph strategy short_term_ttl))) =
          calls (priv_client self) @
            [(Sync, create_store_call self description custom_instructions enable_graph strategy short_term_ttl),
             (Sync, create_project_call self)])"
  by (auto simp: SLSMemoryClient_create_memory_store_def sdk_call_def invoke_def answers_def Let_def
        split: prod.splits sum.splits)

lemma sync_create_retry_fails:
  "(answers self (create_store_call self description custom_instructions enable_graph strategy short_term_ttl) = Inl e
        \<and> str_contains ''ProjectNotExist'' (str_exn e)
        \<and> answers (snd (sdk_call Sync (create_store_call self description custom_instructions enable_graph strategy short_term_ttl) self))
              (create_project_call self) = Inr created
        \<and> answers (snd (sdk_call Sync (create_project_call self)
                   (snd (sdk_call Sync (create_store_call self description custom_instructions enable_graph strategy short_term_ttl) self))))
              (create_store_call self description custom_instructions enable_graph strategy short_term_ttl) = Inl e_retry \<longrightarrow>
      fst (SLSMemoryClient_create_memory_store self
              description custom_instructions enable_graph strategy short_term_ttl) = Inl e_retry
      \<and> calls (priv_client (snd (SLSMemoryClient_create_memory_store self
              description custom_instructions enable_graph strategy short_term_ttl))) =
          calls (priv_client self) @
            [(Sync, create_store_call self description custom_instructions enable_graph strategy short_term_ttl),
             (Sync, create_project_call self),
             (Sync, create_store_call self description custom_instructions enable_graph strategy short_term_ttl)])"
  by (auto simp: SLSMemoryClient_create_memory_store_def sdk_call_def invoke_def answers_def Let_def
        split: prod.splits sum.splits)

lemma sync_create_retry_succeeds:
  "(answers self (create_store_call self description custom_instructions enable_graph strategy short_term_ttl) = Inl e
        \<and> str_contains ''ProjectNotExist'' (str_exn e)
        \<and> answers (snd (sdk_call Sync (create_store_call self description custom_instructions enable_graph strategy short_term_ttl) self))
              (create_project_call self) = Inr created
        \<and> answers (snd (sdk_call Sync (create_project_call self)
                   (snd (sdk_call Sync (create_store_call self description custom_instructions enable_graph strategy short_term_ttl) self))))
              (create_store_call self description custom_instructions enable_graph strategy short_term_ttl) = Inr response \<longrightarrow>
      fst (SLSMemoryClient_create_memory_store self
              description custom_instructions enable_graph strategy short_term_ttl) = Inr (status_and_headers response)
      \<and> calls (priv_client (snd (SLSMemoryClient_create_memory_store self
              description custom_instructions enable_graph strategy short_term_ttl))) =
          calls (priv_client self) @
            [(Sync, create_store_call self description custom_instructions enable_graph strategy short_term_ttl),
             (Sync, create_project_call self),
             (Sync, create_store_call self description custom_instructions enable_graph strategy short_term_ttl)])"
  by (auto simp: SLSMemoryClient_create_memory_store_def sdk_call_def invoke_def answers_def Let_def
        split: prod.splits sum.splits)

lemma async_create_first_succeeds:
  "(answers self (create_store_call self description custom_instructions enable_graph strategy short_term_ttl) = Inr response \<longrightarrow>
      fst (AsyncSLSMemoryClient_create_memory_store self
              description custom_instructions enable_graph strategy short_term_ttl) = Inr (status_and_headers response)
      \<and> calls (priv_client (snd (AsyncSLSMemoryClient_create_memory_store self
              description custom_instructions enable_graph strategy short_term_ttl))) =
          calls (priv_client self) @
            [(Async, create_store_call self description custom_instructions enable_graph strategy short_term_ttl)])"
  by (auto simp: AsyncSLSMemoryClient_create_memory_store_def sdk_call_def invoke_def answers_def Let_def
        split: prod.splits sum.splits)

lemma async_create_other_failure:
  "(answers self (create_store_call self description custom_instructions enable_graph strategy short_term_ttl) = Inl e
        \<and> \<not> str_contains ''ProjectNotExist'' (str_exn e) \<longrightarrow>
      fst (AsyncSLSMemoryClient_create_memory_store self
              description custom_instructions enable_graph strategy short_term_ttl) = Inl e
      \<and> calls (priv_client (snd (AsyncSLSMemoryClient_create_memory_store self
              description custom_instructions enable_graph strategy short_term_ttl))) =
          calls (priv_client self) @
            [(Async, create_store_call self description custom_instructions enable_graph strategy short_term_ttl)])"
  by (auto simp: AsyncSLSMemoryClient_create_memory_store_def sdk_call_def invoke_def answers_def Let_def
        split: prod.splits sum.splits)

lemma async_create_project_fails:
  "(answers self (create_store_call self description custom_instructions enable_graph strategy short_term_ttl) = Inl e
        \<and> str_contains ''ProjectNotExist'' (str_exn e)
        \<and> answers (snd (sdk_call Async (create_store_call self description custom_instructions enable_graph strategy short_term_ttl) self))
              (create_project_call self) = Inl e_project \<longrightarrow>
      fst (AsyncSLSMemoryClient_create_memory_store self
              description custom_instructions enable_graph strategy short_term_ttl) = Inl e_project
      \<and> calls (priv_client (snd (AsyncSLSMemoryClient_create_memory_store self
              description custom_instructions enable_graph strategy short_term_ttl))) =
          calls (priv_client self) @
            [(Async, create_store_call self description custom_instructions enable_graph strategy short_term_ttl),
             (Async, create_project_call self)])"
  by (auto simp: AsyncSLSMemoryClient_create_memory_store_def sdk_call_def invoke_def answers_def Let_def
        split: prod.splits sum.splits)

lemma async_create_retry_fails:
  "(answers self (create_store_call self description custom_instructions enable_graph strategy short_term_ttl) = Inl e
        \<and> str_contains ''ProjectNotExist'' (str_exn e)
        \<and> answers (snd (sdk_call Async (create_store_call self description custom_instructions enable_graph strategy short_term_ttl) self))
              (create_project_call self) = Inr created
        \<and> answers (snd (sdk_call Async (create_project_call self)
                   (snd (sdk_call Async (create_store_call self description custom_instructions enable_graph strategy short_term_ttl) self))))
              (create_store_call self description custom_instructions enable_graph strategy short_term_ttl) = Inl e_retry \<longrightarrow>
      fst (AsyncSLSMemoryClient_create_memory_store self
              description custom_instructions enable_graph strategy short_term_ttl) = Inl e_retry
      \<and> calls (priv_client (snd (AsyncSLSMemoryClient_create_memory_store self
              description custom_instructions enable_graph strategy short_term_ttl))) =
          calls (priv_client self) @
            [(Async, create_store_call self description custom_instructions enable_graph strategy short_term_ttl),
             (Async, create_project_call self),
             (Async, create_store_call self description custom_instructions enable_graph strategy short_term_ttl)])"
  by (auto simp: AsyncSLSMemoryClient_create_memory_store_def sdk_call_def invoke_def answers_def Let_def
        split: prod.splits sum.splits)

lemma async_create_retry_succeeds:
  "(answers self (create_store_call self description custom_instructions enable_graph strategy short_term_ttl) = Inl e
        \<and> str_contains ''ProjectNotExist'' (str_exn e)
        \<and> answers (snd (sdk_call Async (create_store_call self description custom_instructions enable_graph strategy short_term_ttl) self))
              (create_project_call self) = Inr created
        \<and> answers (snd (sdk_call Async (create_project_call self)
                   (snd (sdk_call Async (create_store_call self description custom_instructions enable_graph strategy short_term_ttl) self))))
              (create_store_call self description custom_instructions enable_graph strategy short_term_ttl) = Inr response \<longrightarrow>
      fst (AsyncSLSMemoryClient_create_memory_store self
              description custom_instructions enable_graph strategy short_term_ttl) = Inr (status_and_headers response)
      \<and> calls (priv_client (snd (AsyncSLSMemoryClient_create_memory_store self
              description custom_instructions enable_graph strategy short_term_ttl))) =
          calls (priv_client self) @
            [(Async, create_store_call self description custom_instructions enable_graph strategy short_term_ttl),
             (Async, create_project_call self),
             (Async, create_store_call self description custom_instructions enable_graph strategy short_term_ttl)])"
  by (auto simp: AsyncSLSMemoryClient_create_memory_store_def sdk_call_def invoke_def answers_def Let_def
        split: prod.splits sum.splits)

text \<open>
  Claim C1.  \<open>create_memory_store\<close> of either class first invokes the SDK's
  \<open>create_memory_store\<close> with the request built from its arguments.
  If that succeeds, this is the only invocation and the status dict is returned.
  If it raises an exception whose text does not contain \<open>ProjectNotExist\<close>, this is the only
  invocation and that exception is raised.
  If it raises an exception whose text contains \<open>ProjectNotExist\<close>, \<open>create_project\<close> is
  invoked once, with the client's project and the description
  \<open>Auto-created by SLS Memory SDK\<close>.  An exception of \<open>create_project\<close> is raised as it
  is and nothing more is invoked; otherwise \<open>create_memory_store\<close> is invoked once more with
  the same request, and its exception is raised as it is or the status dict of its
  response is returned.
\<close>

theorem create_memory_store_provisions_once:
  "(answers self (create_store_call self description custom_instructions enable_graph strategy short_term_ttl) = Inr response \<longrightarrow>
      fst (SLSMemoryClient_create_memory_store self
              description custom_instructions enable_graph strategy short_term_ttl) = Inr (status_and_headers response)
      \<and> calls (priv_client (snd (SLSMemoryClient_create_memory_store self
              description custom_instructions enable_graph strategy short_term_ttl))) =
          calls (priv_client self) @
            [(Sync, create_store_call self description custom_instructions enable_graph strategy short_term_ttl)])
   \<and> (answers self (create_store_call self description custom_instructions enable_graph strategy short_term_ttl) = Inl e
        \<and> \<not> str_contains ''ProjectNotExist'' (str_exn e) \<longrightarrow>
      fst (SLSMemoryClient_create_memory_store self
              description custom_instructions enable_graph strategy short_term_ttl) = Inl e
      \<and> calls (priv_client (snd (SLSMemoryClient_create_memory_store self
              description custom_instructions enable_graph strategy short_term_ttl))) =
          calls (priv_client self) @
            [(Sync, create_store_call self description custom_instructions enable_graph strategy short_term_ttl)])
   \<and> (answers self (create_store_call self description custom_instructions enable_graph strategy short_term_ttl) = Inl e
        \<and> str_contains ''ProjectNotExist'' (str_exn e)
        \<and> answers (snd (sdk_call Sync (create_store_call self description custom_instructions enable_graph strategy short_term_ttl) self))
              (create_project_call self) = Inl e_project \<longrightarrow>
      fst (SLSMemoryClient_create_memory_store self
              description custom_instructions enable_graph strategy short_term_ttl) = Inl e_project
      \<and> calls (priv_client (snd (SLSMemoryClient_create_memory_store self
              description custom_instructions enable_graph strategy short_term_ttl))) =
          calls (priv_client self) @
            [(Sync, create_store_call self description custom_instructions enable_graph strategy short_term_ttl),
             (Sync, create_project_call self)])
   \<and> (answers self (create_store_call self description custom_instructions enable_graph strategy short_term_ttl) = Inl e
        \<and> str_contains ''ProjectNotExist'' (str_exn e)
        \<and> answers (snd (sdk_call Sync (create_store_call self description custom_instructions enable_graph strategy short_term_ttl) self))
              (create_project_call self) = Inr created
        \<and> answers (snd (sdk_call Sync (create_project_call self)
                   (snd (sdk_call Sync (create_store_call self description custom_instructions enable_graph strategy short_term_ttl) self))))
              (create_store_call self description custom_instructions enable_graph strategy short_term_ttl) = Inl e_retry \<longrightarrow>
      fst (SLSMemoryClient_create_memory_store self
              description custom_instructions enable_graph strategy short_term_ttl) = Inl e_retry
      \<and> calls (priv_client (snd (SLSMemoryClient_create_memory_store self
              description custom_instructions enable_graph strategy short_term_ttl))) =
          calls (priv_client self) @
            [(Sync, create_store_call self description custom_instructions enable_graph strategy short_term_ttl),
             (Sync, create_project_call self),
             (Sync, create_store_call self description custom_instructions enable_graph strategy short_term_ttl)])
   \<and> (answers self (create_store_call self description custom_instructions enable_graph strategy short_term_ttl) = Inl e
        \<and> str_contains ''ProjectNotExist'' (str_exn e)
        \<and> answers (snd (sdk_call Sync (create_store_call self description custom_instructions enable_graph strategy short_term_ttl) self))
              (create_project_call self) = Inr created
        \<and> answers (snd (sdk_call Sync (create_project_call self)
                   (snd (sdk_call Sync (create_store_call self description custom_instructions enable_graph strategy short_term_ttl) self))))
              (create_store_call self description custom_instructions enable_graph strategy short_term_ttl) = Inr response \<longrightarrow>
      fst (SLSMemoryClient_create_memory_store self
              description custom_instructions enable_graph strategy short_term_ttl) = Inr (status_and_headers response)
      \<and> calls (priv_client (snd (SLSMemoryClient_create_memory_store self
              description custom_instructions enable_graph strategy short_term_ttl))) =
          calls (priv_client self) @
            [(Sync, create_store_call self description custom_instructions enable_graph strategy short_term_ttl),
             (Sync, create_project_call self),
             (Sync, create_store_call self description custom_instructions enable_graph strategy short_term_ttl)])
   \<and> (answers self (create_store_call self description custom_instructions enable_graph strategy short_term_ttl) = Inr response \<longrightarrow>
      fst (AsyncSLSMemoryClient_create_memory_store self
              description custom_instructions enable_graph strategy short_term_ttl) = Inr (status_and_headers response)
      \<and> calls (priv_client (snd (AsyncSLSMemoryClient_create_memory_store self
              description custom_instructions enable_graph strategy short_term_ttl))) =
          calls (priv_client self) @
            [(Async, create_store_call self description custom_instructions enable_graph strategy short_term_ttl)])
   \<and> (answers self (create_store_call self description custom_instructions enable_graph strategy short_term_ttl) = Inl e
        \<and> \<not> str_contains ''ProjectNotExist'' (str_exn e) \<longrightarrow>
      fst (AsyncSLSMemoryClient_create_memory_store self
              description custom_instructions enable_graph strategy short_term_ttl) = Inl e
      \<and> calls (priv_client (snd (AsyncSLSMemoryClient_create_memory_store self
              description custom_instructions enable_graph strategy short_term_ttl))) =
          calls (priv_client self) @
            [(Async, create_store_call self description custom_instructions enable_graph strategy short_term_ttl)])
   \<and> (answers self (create_store_call self description custom_instructions enable_graph strategy short_term_ttl) = Inl e
        \<and> str_contains ''ProjectNotExist'' (str_exn e)
        \<and> answers (snd (sdk_call Async (create_store_call self description custom_instructions enable_graph strategy short_term_ttl) self))
              (create_project_call self) = Inl e_project \<longrightarrow>
      fst (AsyncSLSMemoryClient_create_memory_store self
              description custom_instructions enable_graph strategy short_term_ttl) = Inl e_project
      \<and> calls (priv_client (snd (AsyncSLSMemoryClient_create_memory_store self
              description custom_instructions enable_graph strategy short_term_ttl))) =
          calls (priv_client self) @
            [(Async, create_store_call self description custom_instructions enable_graph strategy short_term_ttl),
             (Async, create_project_call self)])
   \<and> (answers self (create_store_call self description custom_instructions enable_graph strategy short_term_ttl) = Inl e
        \<and> str_contains ''ProjectNotExist'' (str_exn e)
        \<and> answers (snd (sdk_call Async (create_store_call self description custom_instructions enable_graph strategy short_term_ttl) self))
              (create_project_call self) = Inr created
        \<and> answers (snd (sdk_call Async (create_project_call self)
                   (snd (sdk_call Async (create_store_call self description custom_instructions enable_graph strategy short_term_ttl) self))))
              (create_store_call self description custom_instructions enable_graph strategy short_term_ttl) = Inl e_retry \<longrightarrow>
      fst (AsyncSLSMemoryClient_create_memory_store self
              description custom_instructions enable_graph strategy short_term_ttl) = Inl e_retry
      \<and> calls (priv_client (snd (AsyncSLSMemoryClient_create_memory_store self
              description custom_instructions enable_graph strategy short_term_ttl))) =
          calls (priv_client self) @
            [(Async, create_store_call self description custom_instructions enable_graph strategy short_term_ttl),
             (Async, create_project_call self),
             (Async, create_store_call self description custom_instructions enable_graph strategy short_term_ttl)])
   \<and> (answers self (create_store_call self description custom_instructions enable_graph strategy short_term_ttl) = Inl e
        \<and> str_contains ''ProjectNotExist'' (str_exn e)
        \<and> answers (snd (sdk_call Async (create_store_call self description custom_instructions enable_graph strategy short_term_ttl) self))
              (create_project_call self) = Inr created
        \<and> answers (snd (sdk_call Async (create_project_call self)
                   (snd (sdk_call Async (create_store_call self description custom_instructions enable_graph strategy short_term_ttl) self))))
              (create_store_call self description custom_instructions enable_graph strategy short_term_ttl) = Inr response \<longrightarrow>
      fst (AsyncSLSMemoryClient_create_memory_store self
              description custom_instructions enable_graph strategy short_term_ttl) = Inr (status_and_headers response)
      \<and> calls (priv_client (snd (AsyncSLSMemoryClient_create_memory_store self
              description custom_instructions enable_graph strategy short_term_ttl))) =
          calls (priv_client self) @
            [(Async, create_store_call self description custom_instructions enable_graph strategy short_term_ttl),
             (Async, create_project_call self),
             (Async, create_store_call self description custom_instructions enable_graph strategy short_term_ttl)])"
  by (intro conjI)
     (rule sync_create_first_succeeds sync_create_other_failure sync_create_project_fails
        sync_create_retry_fails sync_create_retry_succeeds async_create_first_succeeds
        async_create_other_failure async_create_project_fails async_create_retry_fails
        async_create_retry_succeeds)+

text \<open>
  Five runs on the scripted backend, one per case: the store is created at once; the
  first call is refused for another reason; the project is missing and cannot be
  created; the project is created and the retry fails; the project is created and the
  retry succeeds (in both classes).
\<close>

theorem create_memory_store_provisions_once_witness:
  "fst (SLSMemoryClient_create_memory_store (demo_client [Inr (ok_response PNone)])
            PNone PNone (PBool False) (PStr ''default'') (PInt 7)) =
       Inr (PDict [(PStr ''status_code'', PInt 200), (PStr ''headers'', PDict [])])
   \<and> calls (priv_client (snd (SLSMemoryClient_create_memory_store (demo_client [Inr (ok_response PNone)])
            PNone PNone (PBool False) (PStr ''default'') (PInt 7)))) =
         [(Sync, create_memory_store (PStr ''my-project'')
              \<lparr>cms_name = PStr ''my-store'', cms_description = PNone,
               cms_custom_instructions = PNone, cms_enable_graph = PBool False,
               cms_strategy = PStr ''default'', cms_short_term_ttl = PInt 7\<rparr>)]
   \<and> fst (SLSMemoryClient_create_memory_store (demo_client [Inl (SDKError ''Unauthorized'')])
            PNone PNone (PBool False) (PStr ''default'') (PInt 7)) =
       Inl (SDKError ''Unauthorized'')
   \<and> calls (priv_client (snd (SLSMemoryClient_create_memory_store (demo_client [Inl (SDKError ''Unauthorized'')])
            PNone PNone (PBool False) (PStr ''default'') (PInt 7)))) =
         [(Sync, create_memory_store (PStr ''my-project'')
              \<lparr>cms_name = PStr ''my-store'', cms_description = PNone,
               cms_custom_instructions = PNone, cms_enable_graph = PBool False,
               cms_strategy = PStr ''default'', cms_short_term_ttl = PInt 7\<rparr>)]
   \<and> fst (SLSMemoryClient_create_memory_store (demo_client [Inl (SDKError ''ProjectNotExist: The Project does not exist : my-project''), Inl (SDKError ''ProjectQuotaExceed'')])
            PNone PNone (PBool False) (PStr ''default'') (PInt 7)) =
       Inl (SDKError ''ProjectQuotaExceed'')
   \<and> calls (priv_client (snd (SLSMemoryClient_create_memory_store (demo_client [Inl (SDKError ''ProjectNotExist: The Project does not exist : my-project''), Inl (SDKError ''ProjectQuotaExceed'')])
            PNone PNone (PBool False) (PStr ''default'') (PInt 7)))) =
         [(Sync, create_memory_store (PStr ''my-project'')
              \<lparr>cms_name = PStr ''my-store'', cms_description = PNone,
               cms_custom_instructions = PNone, cms_enable_graph = PBool False,
               cms_strategy = PStr ''default'', cms_short_term_ttl = PInt 7\<rparr>),
           (Sync, create_project
              \<lparr>cp_project_name = PStr ''my-project'',
               cp_description = PStr ''Auto-created by SLS Memory SDK''\<rparr>)]
   \<and> fst (SLSMemoryClient_create_memory_store (demo_client [Inl (SDKError ''ProjectNotExist: The Project does not exist : my-project''), Inr (ok_response PNone), Inl (SDKError ''InternalServerError'')])
            PNone PNone (PBool False) (PStr ''default'') (PInt 7)) =
       Inl (SDKError ''InternalServerError'')
   \<and> calls (priv_client (snd (SLSMemoryClient_create_memory_store (demo_client [Inl (SDKError ''ProjectNotExist: The Project does not exist : my-project''), Inr (ok_response PNone), Inl (SDKError ''InternalServerError'')])
            PNone PNone (PBool False) (PStr ''default'') (PInt 7)))) =
         [(Sync, create_memory_store (PStr ''my-project'')
              \<lparr>cms_name = PStr ''my-store'', cms_description = PNone,
               cms_custom_instructions = PNone, cms_enable_graph = PBool False,
               cms_strategy = PStr ''default'', cms_short_term_ttl = PInt 7\<rparr>),
           (Sync, create_project
              \<lparr>cp_project_name = PStr ''my-project'',
               cp_description = PStr ''Auto-created by SLS Memory SDK''\<rparr>),
           (Sync, create_memory_store (PStr ''my-project'')
              \<lparr>cms_name = PStr ''my-store'', cms_description = PNone,
               cms_custom_instructions = PNone, cms_enable_graph = PBool False,
               cms_strategy = PStr ''default'', cms_short_term_ttl = PInt 7\<rparr>)]
   \<and> fst (SLSMemoryClient_create_memory_store (demo_client [Inl (SDKError ''ProjectNotExist: The Project does not exist : my-project''), Inr (ok_response PNone), Inr (ok_response PNone)])
            PNone PNone (PBool False) (PStr ''default'') (PInt 7)) =
       Inr (PDict [(PStr ''status_code'', PInt 200), (PStr ''headers'', PDict [])])
   \<and> calls (priv_client (snd (SLSMemoryClient_create_memory_store (demo_client [Inl (SDKError ''ProjectNotExist: The Project does not exist : my-project''), Inr (ok_response PNone), Inr (ok_response PNone)])
            PNone PNone (PBool False) (PStr ''default'') (PInt 7)))) =
         [(Sync, create_memory_store (PStr ''my-project'')
              \<lparr>cms_name = PStr ''my-store'', cms_description = PNone,
               cms_custom_instructions = PNone, cms_enable_graph = PBool False,
               cms_strategy = PStr ''default'', cms_short_term_ttl = PInt 7\<rparr>),
           (Sync, create_project
              \<lparr>cp_project_name = PStr ''my-project'',
               cp_description = PStr ''Auto-created by SLS Memory SDK''\<rparr>),
           (Sync, create_memory_store (PStr ''my-project'')
              \<lparr>cms_name = PStr ''my-store'', cms_description = PNone,
               cms_custom_instructions = PNone, cms_enable_graph = PBool False,
               cms_strategy = PStr ''default'', cms_short_term_ttl = PInt 7\<rparr>)]
   \<and> fst (AsyncSLSMemoryClient_create_memory_store (demo_client [Inl (SDKError ''ProjectNotExist: The Project does not exist : my-project''), Inr (ok_response PNone), Inr (ok_response PNone)])
            PNone PNone (PBool False) (PStr ''default'') (PInt 7)) =
       Inr (PDict [(PStr ''status_code'', PInt 200), (PStr ''headers'', PDict [])])
   \<and> calls (priv_client (snd (AsyncSLSMemoryClient_create_memory_store (demo_client [Inl (SDKError ''ProjectNotExist: The Project does not exist : my-project''), Inr (ok_response PNone), Inr (ok_response PNone)])
            PNone PNone (PBool False) (PStr ''default'') (PInt 7)))) =
         [(Async, create_memory_store (PStr ''my-project'')
              \<lparr>cms_name = PStr ''my-store'', cms_description = PNone,
               cms_custom_instructions = PNone, cms_enable_graph = PBool False,
               cms_strategy = PStr ''default'', cms_short_term_ttl = PInt 7\<rparr>),
           (Async, create_project
              \<lparr>cp_project_name = PStr ''my-project'',
               cp_description = PStr ''Auto-created by SLS Memory SDK''\<rparr>),
           (Async, create_memory_store (PStr ''my-project'')
              \<lparr>cms_name = PStr ''my-store'', cms_description = PNone,
               cms_custom_instructions = PNone, cms_enable_graph = PBool False,
               cms_strategy = PStr ''default'', cms_short_term_ttl = PInt 7\<rparr>)]"
proof -
  note first_ok = create_memory_store_provisions_once [where self = "demo_client [Inr (ok_response PNone)]"
      and description = PNone and custom_instructions = PNone and enable_graph = "PBool False"
      and strategy = "PStr ''default''" and short_term_ttl = "PInt 7"
      and response = "ok_response PNone" and created = "ok_response PNone"
      and e = "SDKError []"
      and e_project = "SDKError []" and e_retry = "SDKError []"]
  note denied = create_memory_store_provisions_once [where self = "demo_client [Inl (SDKError ''Unauthorized'')]"
      and description = PNone and custom_instructions = PNone and enable_graph = "PBool False"
      and strategy = "PStr ''default''" and short_term_ttl = "PInt 7"
      and response = "ok_response PNone" and created = "ok_response PNone"
      and e = "SDKError ''Unauthorized''"
      and e_project = "SDKError []" and e_retry = "SDKError []"]
  note no_project = create_memory_store_provisions_once [where self = "demo_client [Inl (SDKError ''ProjectNotExist: The Project does not exist : my-project''), Inl (SDKError ''ProjectQuotaExceed'')]"
      and description = PNone and custom_instructions = PNone and enable_graph = "PBool False"
      and strategy = "PStr ''default''" and short_term_ttl = "PInt 7"
      and response = "ok_response PNone" and created = "ok_response PNone"
      and e = "SDKError ''ProjectNotExist: The Project does not exist : my-project''"
      and e_project = "SDKError ''ProjectQuotaExceed''" and e_retry = "SDKError []"]
  note retry_fails = create_memory_store_provisions_once [where self = "demo_client [Inl (SDKError ''ProjectNotExist: The Project does not exist : my-project''), Inr (ok_response PNone), Inl (SDKError ''InternalServerError'')]"
      and description = PNone and custom_instructions = PNone and enable_graph = "PBool False"
      and strategy = "PStr ''default''" and short_term_ttl = "PInt 7"
      and response = "ok_response PNone" and created = "ok_response PNone"
      and e = "SDKError ''ProjectNotExist: The Project does not exist : my-project''"
      and e_project = "SDKError []" and e_retry = "SDKError ''InternalServerError''"]
  note provisioned = create_memory_store_provisions_once [where self = "demo_client [Inl (SDKError ''ProjectNotExist: The Project does not exist : my-project''), Inr (ok_response PNone), Inr (ok_response PNone)]"
      and description = PNone and custom_instructions = PNone and enable_graph = "PBool False"
      and strategy = "PStr ''default''" and short_term_ttl = "PInt 7"
      and response = "ok_response PNone" and created = "ok_response PNone"
      and e = "SDKError ''ProjectNotExist: The Project does not exist : my-project''"
      and e_project = "SDKError []" and e_retry = "SDKError []"]
  have answer: "\<And>r rs k. answers (demo_client (r # rs)) k = r"
    by (simp add: answers_def demo_client_def scripted_def)
  have next_client: "\<And>m r rs k. answers (snd (sdk_call m k (demo_client (r # rs)))) = answers (demo_client rs)"
    by (rule ext) (simp add: answers_def sdk_call_def invoke_def demo_client_def scripted_def)
  have next_client2: "\<And>m m' r r' rs k k'.
      answers (snd (sdk_call m' k' (snd (sdk_call m k (demo_client (r # r' # rs))))))
        = answers (demo_client rs)"
    by (rule ext) (simp add: answers_def sdk_call_def invoke_def demo_client_def scripted_def)
  have start: "\<And>s. calls (priv_client (demo_client s)) = []"
      "\<And>s. priv_project (demo_client s) = PStr ''my-project''"
      "\<And>s. priv_memory_store (demo_client s) = PStr ''my-store''"
    by (simp_all add: demo_client_def scripted_def)
  have status: "status_and_headers (ok_response PNone)
      = PDict [(PStr ''status_code'', PInt 200), (PStr ''headers'', PDict [])]"
    by (simp add: status_and_headers_def ok_response_def)
  from first_ok denied no_project retry_fails provisioned show ?thesis
    by (simp add: answer next_client next_client2 start status)
qed

text \<open>
  Claim C2.  A string \<open>s\<close> normalises to the single message with role \<open>"user"\<close> and content
  \<open>s\<close>.  A dict normalises to the single message read from it.  A list of dicts normalises
  to the list of their messages, one per element and in the order given, duplicates
  kept.  In each message the role is the value under the key \<open>"role"\<close>, \<open>"user"\<close> when the
  key is absent, and the content is the value under \<open>"content"\<close>, the empty string when
  the key is absent.
\<close>

theorem prepare_messages_normalises:
  "SLSMemoryClient_prepare_messages (PStr s) = Inr [\<lparr>role = PStr ''user'', content = PStr s\<rparr>]
   \<and> SLSMemoryClient_prepare_messages (PDict d) =
       Inr [\<lparr>role = (case map_of d (PStr ''role'') of None \<Rightarrow> PStr ''user'' | Some v \<Rightarrow> v),
             content = (case map_of d (PStr ''content'') of None \<Rightarrow> PStr [] | Some v \<Rightarrow> v)\<rparr>]
   \<and> SLSMemoryClient_prepare_messages (PList (map PDict ds)) =
       Inr (map (\<lambda>d. \<lparr>role = (case map_of d (PStr ''role'') of None \<Rightarrow> PStr ''user'' | Some v \<Rightarrow> v),
                       content = (case map_of d (PStr ''content'') of None \<Rightarrow> PStr [] | Some v \<Rightarrow> v)\<rparr>) ds)"
proof (intro conjI)
  show "SLSMemoryClient_prepare_messages (PStr s) = Inr [\<lparr>role = PStr ''user'', content = PStr s\<rparr>]"
    by (simp add: SLSMemoryClient_prepare_messages_def py_get_dict)
  show "SLSMemoryClient_prepare_messages (PDict d) =
       Inr [\<lparr>role = (case map_of d (PStr ''role'') of None \<Rightarrow> PStr ''user'' | Some v \<Rightarrow> v),
             content = (case map_of d (PStr ''content'') of None \<Rightarrow> PStr [] | Some v \<Rightarrow> v)\<rparr>]"
    by (simp add: SLSMemoryClient_prepare_messages_def py_get_dict)
  show "SLSMemoryClient_prepare_messages (PList (map PDict ds)) =
       Inr (map (\<lambda>d. \<lparr>role = (case map_of d (PStr ''role'') of None \<Rightarrow> PStr ''user'' | Some v \<Rightarrow> v),
                       content = (case map_of d (PStr ''content'') of None \<Rightarrow> PStr [] | Some v \<Rightarrow> v)\<rparr>) ds)"
    using sync_loop_dicts [of ds "[]"] by (simp add: SLSMemoryClient_prepare_messages_def)
qed

section \<open>The two facades\<close>




















section \<open>Absent bodies and absent results\<close>

lemma sync_convert_none:
  "SLSMemoryClient_convert_memory_result PNone = Inr (PDict [])"
  by (simp add: SLSMemoryClient_convert_memory_result_def)

lemma sync_convert_list_none:
  "SLSMemoryClient_convert_results_list PNone = Inr (PList [])"
  by (simp add: SLSMemoryClient_convert_results_list_def)

lemma sync_get_no_body:
  "(truthy memory_id
        \<and> answers self (get_memory (priv_project self) (priv_memory_store self) memory_id) = Inr response
        \<and> body response = PNone \<longrightarrow>
      fst (SLSMemoryClient_get self memory_id) = Inr (PDict []))"
  by (auto simp: SLSMemoryClient_get_def sdk_call_def invoke_def answers_def Let_def
        split: prod.splits sum.splits)

lemma sync_describe_no_body:
  "(answers self (get_memory_store (priv_project self) (priv_memory_store self)) = Inr response
        \<and> body response = PNone \<longrightarrow>
      fst (SLSMemoryClient_describe_memory_store self) = Inr (PDict []))"
  by (auto simp: SLSMemoryClient_describe_memory_store_def sdk_call_def invoke_def answers_def Let_def
        split: prod.splits sum.splits)

lemma sync_history_no_body:
  "(truthy memory_id
        \<and> answers self (get_memory_history (priv_project self) (priv_memory_store self) memory_id) = Inr response
        \<and> body response = PNone \<longrightarrow>
      fst (SLSMemoryClient_history self memory_id) = Inr (PList []))"
  by (auto simp: SLSMemoryClient_history_def sdk_call_def invoke_def answers_def Let_def
        split: prod.splits sum.splits)

lemma sync_add_no_body:
  "(SLSMemoryClient_prepare_messages messages = Inr sls_messages
        \<and> answers self
             (add_memories (priv_project self) (priv_memory_store self)
               \<lparr>add_messages = sls_messages, add_user_id = user_id, add_agent_id = agent_id,
                add_app_id = app_id, add_run_id = run_id, add_metadata = metadata,
                add_infer = infer, add_custom_instructions = PNone,
                add_async_mode = async_mode\<rparr>) = Inr response
        \<and> body response = PNone \<longrightarrow>
      fst (SLSMemoryClient_add self messages user_id agent_id app_id run_id metadata infer async_mode) =
        Inr (PDict [(PStr ''results'', PList [])]))"
  by (auto simp: SLSMemoryClient_add_def sdk_call_def invoke_def answers_def Let_def
        split: prod.splits sum.splits)

lemma sync_get_all_no_body:
  "(answers self
             (get_memories (priv_project self) (priv_memory_store self)
               \<lparr>gm_user_id = user_id, gm_agent_id = agent_id, gm_app_id = app_id,
                gm_run_id = run_id, gm_limit = limit\<rparr>) = Inr response
        \<and> body response = PNone \<longrightarrow>
      fst (SLSMemoryClient_get_all self user_id agent_id app_id run_id limit) =
        Inr (PDict [(PStr ''results'', PList [])]))"
  by (auto simp: SLSMemoryClient_get_all_def sdk_call_def invoke_def answers_def Let_def
        split: prod.splits sum.splits)

lemma sync_get_all_no_results:
  "(answers self
             (get_memories (priv_project self) (priv_memory_store self)
               \<lparr>gm_user_id = user_id, gm_agent_id = agent_id, gm_app_id = app_id,
                gm_run_id = run_id, gm_limit = limit\<rparr>) = Inr response
        \<and> body response = PObject cls attrs tm \<and> map_of attrs ''results'' = Some PNone \<longrightarrow>
      fst (SLSMemoryClient_get_all self user_id agent_id app_id run_id limit) =
        Inr (PDict [(PStr ''results'', PList [])]))"
  by (auto simp: SLSMemoryClient_get_all_def sdk_call_def invoke_def answers_def Let_def py_getattr_def
        split: prod.splits sum.splits)

lemma sync_search_no_body:
  "(truthy query
        \<and> answers self
             (search_memories (priv_project self) (priv_memory_store self)
               \<lparr>sm_query = query, sm_user_id = user_id, sm_agent_id = agent_id,
                sm_app_id = app_id, sm_run_id = run_id, sm_top_k = top_k,
                sm_rerank = rerank\<rparr>) = Inr response
        \<and> body response = PNone \<longrightarrow>
      fst (SLSMemoryClient_search self query user_id agent_id app_id run_id top_k rerank) =
        Inr (PDict [(PStr ''results'', PList [])]))"
  by (auto simp: SLSMemoryClient_search_def sdk_call_def invoke_def answers_def Let_def
        split: prod.splits sum.splits)

lemma sync_search_no_results:
  "(truthy query
        \<and> answers self
             (search_memories (priv_project self) (priv_memory_store self)
               \<lparr>sm_query = query, sm_user_id = user_id, sm_agent_id = agent_id,
                sm_app_id = app_id, sm_run_id = run_id, sm_top_k = top_k,
                sm_rerank = rerank\<rparr>) = Inr response
        \<and> body response = PObject cls attrs tm \<and> map_of attrs ''results'' = Some PNone \<longrightarrow>
      fst (SLSMemoryClient_search self query user_id agent_id app_id run_id top_k rerank) =
        Inr (PDict [(PStr ''results'', PList [])]))"
  by (auto simp: SLSMemoryClient_search_def sdk_call_def invoke_def answers_def Let_def py_getattr_def
        split: prod.splits sum.splits)

lemma async_convert_none:
  "AsyncSLSMemoryClient_convert_memory_result PNone = Inr (PDict [])"
  by (simp add: AsyncSLSMemoryClient_convert_memory_result_def)

lemma async_convert_list_none:
  "AsyncSLSMemoryClient_convert_results_list PNone = Inr (PList [])"
  by (simp add: AsyncSLSMemoryClient_convert_results_list_def)

lemma async_get_no_body:
  "(truthy memory_id
        \<and> answers self (get_memory (priv_project self) (priv_memory_store self) memory_id) = Inr response
        \<and> body response = PNone \<longrightarrow>
      fst (AsyncSLSMemoryClient_get self memory_id) = Inr (PDict []))"
  by (auto simp: AsyncSLSMemoryClient_get_def sdk_call_def invoke_def answers_def Let_def
        split: prod.splits sum.splits)

lemma async_describe_no_body:
  "(answers self (get_memory_store (priv_project self) (priv_memory_store self)) = Inr response
        \<and> body response = PNone \<longrightarrow>
      fst (AsyncSLSMemoryClient_describe_memory_store self) = Inr (PDict []))"
  by (auto simp: AsyncSLSMemoryClient_describe_memory_store_def sdk_call_def invoke_def answers_def Let_def
        split: prod.splits sum.splits)

lemma async_history_no_body:
  "(truthy memory_id
        \<and> answers self (get_memory_history (priv_project self) (priv_memory_store self) memory_id) = Inr response
        \<and> body response = PNone \<longrightarrow>
      fst (AsyncSLSMemoryClient_history self memory_id) = Inr (PList []))"
  by (auto simp: AsyncSLSMemoryClient_history_def sdk_call_def invoke_def answers_def Let_def
        split: prod.splits sum.splits)

lemma async_add_no_body:
  "(AsyncSLSMemoryClient_prepare_messages messages = Inr sls_messages
        \<and> answers self
             (add_memories (priv_project self) (priv_memory_store self)
               \<lparr>add_messages = sls_messages, add_user_id = user_id, add_agent_id = agent_id,
                add_app_id = app_id, add_run_id = run_id, add_metadata = metadata,
                add_infer = infer, add_custom_instructions = custom_instructions,
                add_async_mode = async_mode\<rparr>) = Inr response
        \<and> body response = PNone \<longrightarrow>
      fst (AsyncSLSMemoryClient_add self messages user_id agent_id app_id run_id metadata infer custom_instructions async_mode) =
        Inr (PDict [(PStr ''results'', PList [])]))"
  by (auto simp: AsyncSLSMemoryClient_add_def sdk_call_def invoke_def answers_def Let_def
        split: prod.splits sum.splits)

lemma async_get_all_no_body:
  "(answers self
             (get_memories (priv_project self) (priv_memory_store self)
               \<lparr>gm_user_id = user_id, gm_agent_id = agent_id, gm_app_id = app_id,
                gm_run_id = run_id, gm_limit = limit\<rparr>) = Inr response
        \<and> body response = PNone \<longrightarrow>
      fst (AsyncSLSMemoryClient_get_all self user_id agent_id app_id run_id limit) =
        Inr (PDict [(PStr ''results'', PList [])]))"
  by (auto simp: AsyncSLSMemoryClient_get_all_def sdk_call_def invoke_def answers_def Let_def
        split: prod.splits sum.splits)

lemma async_get_all_no_results:
  "(answers self
             (get_memories (priv_project self) (priv_memory_store self)
               \<lparr>gm_user_id = user_id, gm_agent_id = agent_id, gm_app_id = app_id,
                gm_run_id = run_id, gm_limit = limit\<rparr>) = Inr response
        \<and> body response = PObject cls attrs tm \<and> map_of attrs ''results'' = Some PNone \<longrightarrow>
      fst (AsyncSLSMemoryClient_get_all self user_id agent_id app_id run_id limit) =
        Inr (PDict [(PStr ''results'', PList [])]))"
  by (auto simp: AsyncSLSMemoryClient_get_all_def sdk_call_def invoke_def answers_def Let_def py_getattr_def
        split: prod.splits sum.splits)

lemma async_search_no_body:
  "(truthy query
        \<and> answers self
             (search_memories (priv_project self) (priv_memory_store self)
               \<lparr>sm_query = query, sm_user_id = user_id, sm_agent_id = agent_id,
                sm_app_id = app_id, sm_run_id = run_id, sm_top_k = top_k,
                sm_rerank = rerank\<rparr>) = Inr response
        \<and> body response = PNone \<longrightarrow>
      fst (AsyncSLSMemoryClient_search self query user_id agent_id app_id run_id top_k rerank) =
        Inr (PDict [(PStr ''results'', PList [])]))"
  by (auto simp: AsyncSLSMemoryClient_search_def sdk_call_def invoke_def answers_def Let_def
        split: prod.splits sum.splits)

lemma async_search_no_results:
  "(truthy query
        \<and> answers self
             (search_memories (priv_project self) (priv_memory_store self)
               \<lparr>sm_query = query, sm_user_id = user_id, sm_agent_id = agent_id,
                sm_app_id = app_id, sm_run_id = run_id, sm_top_k = top_k,
                sm_rerank = rerank\<rparr>) = Inr response
        \<and> body response = PObject cls attrs tm \<and> map_of attrs ''results'' = Some PNone \<longrightarrow>
      fst (AsyncSLSMemoryClient_search self query user_id agent_id app_id run_id top_k rerank) =
        Inr (PDict [(PStr ''results'', PList [])]))"
  by (auto simp: AsyncSLSMemoryClient_search_def sdk_call_def invoke_def answers_def Let_def py_getattr_def
        split: prod.splits sum.splits)

text \<open>
  Claim C4.  Flattening \<open>None\<close> gives the empty dict, flattening \<open>None\<close> as a list of
  results gives the empty list.  When the backend answers with a response whose body is
  \<open>None\<close>, \<open>get\<close> and \<open>describe_memory_store\<close> return \<open>{}\<close>, \<open>history\<close> returns \<open>[]\<close>, and
  \<open>add\<close>, \<open>get_all\<close> and \<open>search\<close> return \<open>{"results": []}\<close>.  \<open>get_all\<close> and \<open>search\<close>
  return \<open>{"results": []}\<close> as well when the body is an object of the SDK whose \<open>results\<close>
  attribute is \<open>None\<close>, which is how the SDK's model classes hold an absent field.  No
  exception is raised in any of these cases.  Both classes behave so.
\<close>

theorem absent_body_flattens_to_empty:
  "SLSMemoryClient_convert_memory_result PNone = Inr (PDict [])
   \<and> SLSMemoryClient_convert_results_list PNone = Inr (PList [])
   \<and> (truthy memory_id
        \<and> answers self (get_memory (priv_project self) (priv_memory_store self) memory_id) = Inr response
        \<and> body response = PNone \<longrightarrow>
      fst (SLSMemoryClient_get self memory_id) = Inr (PDict []))
   \<and> (answers self (get_memory_store (priv_project self) (priv_memory_store self)) = Inr response
        \<and> body response = PNone \<longrightarrow>
      fst (SLSMemoryClient_describe_memory_store self) = Inr (PDict []))
   \<and> (truthy memory_id
        \<and> answers self (get_memory_history (priv_project self) (priv_memory_store self) memory_id) = Inr response
        \<and> body response = PNone \<longrightarrow>
      fst (SLSMemoryClient_history self memory_id) = Inr (PList []))
   \<and> (SLSMemoryClient_prepare_messages messages = Inr sls_messages
        \<and> answers self
             (add_memories (priv_project self) (priv_memory_store self)
               \<lparr>add_messages = sls_messages, add_user_id = user_id, add_agent_id = agent_id,
                add_app_id = app_id, add_run_id = run_id, add_metadata = metadata,
                add_infer = infer, add_custom_instructions = PNone,
                add_async_mode = async_mode\<rparr>) = Inr response
        \<and> body response = PNone \<longrightarrow>
      fst (SLSMemoryClient_add self messages user_id agent_id app_id run_id metadata infer async_mode) =
        Inr (PDict [(PStr ''results'', PList [])]))
   \<and> (answers self
             (get_memories (priv_project self) (priv_memory_store self)
               \<lparr>gm_user_id = user_id, gm_agent_id = agent_id, gm_app_id = app_id,
                gm_run_id = run_id, gm_limit = limit\<rparr>) = Inr response
        \<and> body response = PNone \<longrightarrow>
      fst (SLSMemoryClient_get_all self user_id agent_id app_id run_id limit) =
        Inr (PDict [(PStr ''results'', PList [])]))
   \<and> (answers self
             (get_memories (priv_project self) (priv_memory_store self)
               \<lparr>gm_user_id = user_id, gm_agent_id = agent_id, gm_app_id = app_id,
                gm_run_id = run_id, gm_limit = limit\<rparr>) = Inr response
        \<and> body response = PObject cls attrs tm \<and> map_of attrs ''results'' = Some PNone \<longrightarrow>
      fst (SLSMemoryClient_get_all self user_id agent_id app_id run_id limit) =
        Inr (PDict [(PStr ''results'', PList [])]))
   \<and> (truthy query
        \<and> answers self
             (search_memories (priv_project self) (priv_memory_store self)
               \<lparr>sm_query = query, sm_user_id = user_id, sm_agent_id = agent_id,
                sm_app_id = app_id, sm_run_id = run_id, sm_top_k = top_k,
                sm_rerank = rerank\<rparr>) = Inr response
        \<and> body response = PNone \<longrightarrow>
      fst (SLSMemoryClient_search self query user_id agent_id app_id run_id top_k rerank) =
        Inr (PDict [(PStr ''results'', PList [])]))
   \<and> (truthy query
        \<and> answers self
             (search_memories (priv_project self) (priv_memory_store self)
               \<lparr>sm_query = query, sm_user_id = user_id, sm_agent_id = agent_id,
                sm_app_id = app_id, sm_run_id = run_id, sm_top_k = top_k,
                sm_rerank = rerank\<rparr>) = Inr response
        \<and> body response = PObject cls attrs tm \<and> map_of attrs ''results'' = Some PNone \<longrightarrow>
      fst (SLSMemoryClient_search self query user_id agent_id app_id run_id top_k rerank) =
        Inr (PDict [(PStr ''results'', PList [])]))
   \<and> AsyncSLSMemoryClient_convert_memory_result PNone = Inr (PDict [])
   \<and> AsyncSLSMemoryClient_convert_results_list PNone = Inr (PList [])
   \<and> (truthy memory_id
        \<and> answers self (get_memory (priv_project self) (priv_memory_store self) memory_id) = Inr response
        \<and> body response = PNone \<longrightarrow>
      fst (AsyncSLSMemoryClient_get self memory_id) = Inr (PDict []))
   \<and> (answers self (get_memory_store (priv_project self) (priv_memory_store self)) = Inr response
        \<and> body response = PNone \<longrightarrow>
      fst (AsyncSLSMemoryClient_describe_memory_store self) = Inr (PDict []))
   \<and> (truthy memory_id
        \<and> answers self (get_memory_history (priv_project self) (priv_memory_store self) memory_id) = Inr response
        \<and> body response = PNone \<longrightarrow>
      fst (AsyncSLSMemoryClient_history self memory_id) = Inr (PList []))
   \<and> (AsyncSLSMemoryClient_prepare_messages messages = Inr sls_messages
        \<and> answers self
             (add_memories (priv_project self) (priv_memory_store self)
               \<lparr>add_messages = sls_messages, add_user_id = user_id, add_agent_id = agent_id,
                add_app_id = app_id, add_run_id = run_id, add_metadata = metadata,
                add_infer = infer, add_custom_instructions = custom_instructions,
                add_async_mode = async_mode\<rparr>) = Inr response
        \<and> body response = PNone \<longrightarrow>
      fst (AsyncSLSMemoryClient_add self messages user_id agent_id app_id run_id metadata infer custom_instructions async_mode) =
        Inr (PDict [(PStr ''results'', PList [])]))
   \<and> (answers self
             (get_memories (priv_project self) (priv_memory_store self)
               \<lparr>gm_user_id = user_id, gm_agent_id = agent_id, gm_app_id = app_id,
                gm_run_id = run_id, gm_limit = limit\<rparr>) = Inr response
        \<and> body response = PNone \<longrightarrow>
      fst (AsyncSLSMemoryClient_get_all self user_id agent_id app_id run_id limit) =
        Inr (PDict [(PStr ''results'', PList [])]))
   \<and> (answers self
             (get_memories (priv_project self) (priv_memory_store self)
               \<lparr>gm_user_id = user_id, gm_agent_id = agent_id, gm_app_id = app_id,
                gm_run_id = run_id, gm_limit = limit\<rparr>) = Inr response
        \<and> body response = PObject cls attrs tm \<and> map_of attrs ''results'' = Some PNone \<longrightarrow>
      fst (AsyncSLSMemoryClient_get_all self user_id agent_id app_id run_id limit) =
        Inr (PDict [(PStr ''results'', PList [])]))
   \<and> (truthy query
        \<and> answers self
             (search_memories (priv_project self) (priv_memory_store self)
               \<lparr>sm_query = query, sm_user_id = user_id, sm_agent_id = agent_id,
                sm_app_id = app_id, sm_run_id = run_id, sm_top_k = top_k,
                sm_rerank = rerank\<rparr>) = Inr response
        \<and> body response = PNone \<longrightarrow>
      fst (AsyncSLSMemoryClient_search self query user_id agent_id app_id run_id top_k rerank) =
        Inr (PDict [(PStr ''results'', PList [])]))
   \<and> (truthy query
        \<and> answers self
             (search_memories (priv_project self) (priv_memory_store self)
               \<lparr>sm_query = query, sm_user_id = user_id, sm_agent_id = agent_id,
                sm_app_id = app_id, sm_run_id = run_id, sm_top_k = top_k,
                sm_rerank = rerank\<rparr>) = Inr response
        \<and> body response = PObject cls attrs tm \<and> map_of attrs ''results'' = Some PNone \<longrightarrow>
      fst (AsyncSLSMemoryClient_search self query user_id agent_id app_id run_id top_k rerank) =
        Inr (PDict [(PStr ''results'', PList [])]))"
  by (intro conjI)
     (rule sync_convert_none sync_convert_list_none sync_get_no_body
        sync_describe_no_body sync_history_no_body sync_add_no_body
        sync_get_all_no_body sync_get_all_no_results sync_search_no_body
        sync_search_no_results async_convert_none async_convert_list_none
        async_get_no_body async_describe_no_body async_history_no_body
        async_add_no_body async_get_all_no_body async_get_all_no_results
        async_search_no_body async_search_no_results)+

text \<open>
  Two runs on the scripted backend: one answering with no body, one with a body whose
  \<open>results\<close> is \<open>None\<close>.
\<close>

theorem absent_body_flattens_to_empty_witness:
  "fst (SLSMemoryClient_get (demo_client [Inr (ok_response PNone)]) (PStr ''m1'')) = Inr (PDict [])
   \<and> fst (SLSMemoryClient_describe_memory_store (demo_client [Inr (ok_response PNone)]))
       = Inr (PDict [])
   \<and> fst (SLSMemoryClient_history (demo_client [Inr (ok_response PNone)]) (PStr ''m1''))
       = Inr (PList [])
   \<and> fst (SLSMemoryClient_add (demo_client [Inr (ok_response PNone)]) (PStr ''hi'') PNone PNone
            PNone PNone PNone (PBool True) (PBool True))
       = Inr (PDict [(PStr ''results'', PList [])])
   \<and> fst (SLSMemoryClient_get_all (demo_client [Inr (ok_response PNone)]) PNone PNone PNone PNone
            PNone)
       = Inr (PDict [(PStr ''results'', PList [])])
   \<and> fst (AsyncSLSMemoryClient_search (demo_client [Inr (ok_response PNone)]) (PStr ''tennis'')
            PNone PNone PNone PNone PNone (PBool False))
       = Inr (PDict [(PStr ''results'', PList [])])
   \<and> fst (SLSMemoryClient_get_all
            (demo_client [Inr (ok_response (PObject ''GetMemoriesResponseBody'' [(''results'', PNone)] (Some (PDict []))))])
            PNone PNone PNone PNone PNone)
       = Inr (PDict [(PStr ''results'', PList [])])
   \<and> fst (SLSMemoryClient_search
            (demo_client [Inr (ok_response (PObject ''GetMemoriesResponseBody'' [(''results'', PNone)] (Some (PDict []))))])
            (PStr ''tennis'') PNone PNone PNone PNone PNone (PBool False))
       = Inr (PDict [(PStr ''results'', PList [])])"
proof -
  note no_body = absent_body_flattens_to_empty [where self = "demo_client [Inr (ok_response (PNone))]"
      and response = "ok_response (PNone)" and memory_id = "PStr ''m1''"
      and query = "PStr ''tennis''" and messages = "PStr ''hi''"
      and sls_messages = "[\<lparr>role = PStr ''user'', content = PStr ''hi''\<rparr>]"
      and infer = "PBool True" and async_mode = "PBool True" and rerank = "PBool False"
      and user_id = PNone
      and agent_id = PNone
      and app_id = PNone
      and run_id = PNone
      and metadata = PNone
      and limit = PNone
      and top_k = PNone
      and custom_instructions = PNone
      and cls = "''GetMemoriesResponseBody''" and attrs = "[(''results'', PNone)]"
      and tm = "Some (PDict [])"]
  note no_results = absent_body_flattens_to_empty [where self = "demo_client [Inr (ok_response (PObject ''GetMemoriesResponseBody'' [(''results'', PNone)] (Some (PDict []))))]"
      and response = "ok_response (PObject ''GetMemoriesResponseBody'' [(''results'', PNone)] (Some (PDict [])))" and memory_id = "PStr ''m1''"
      and query = "PStr ''tennis''" and messages = "PStr ''hi''"
      and sls_messages = "[\<lparr>role = PStr ''user'', content = PStr ''hi''\<rparr>]"
      and infer = "PBool True" and async_mode = "PBool True" and rerank = "PBool False"
      and user_id = PNone
      and agent_id = PNone
      and app_id = PNone
      and run_id = PNone
      and metadata = PNone
      and limit = PNone
      and top_k = PNone
      and custom_instructions = PNone
      and cls = "''GetMemoriesResponseBody''" and attrs = "[(''results'', PNone)]"
      and tm = "Some (PDict [])"]
  have first_answer: "\<And>b k. answers (demo_client [Inr (ok_response b)]) k = Inr (ok_response b)"
    by (simp add: answers_def demo_client_def scripted_def)
  have prepared: "SLSMemoryClient_prepare_messages (PStr ''hi'')
      = Inr [\<lparr>role = PStr ''user'', content = PStr ''hi''\<rparr>]"
    by (simp add: SLSMemoryClient_prepare_messages_def py_get_def)
  have prepared_async: "AsyncSLSMemoryClient_prepare_messages (PStr ''hi'')
      = Inr [\<lparr>role = PStr ''user'', content = PStr ''hi''\<rparr>]"
    by (simp add: AsyncSLSMemoryClient_prepare_messages_def py_get_def)
  have body_ok: "\<And>b. body (ok_response b) = b"
    by (simp add: ok_response_def)
  from no_body no_results show ?thesis
    by (simp add: first_answer prepared prepared_async body_ok)
qed

text \<open>
  Claim C5.  In both classes \<open>get\<close>, \<open>update\<close>, \<open>delete\<close> and \<open>history\<close> with an empty or
  \<open>None\<close> memory id, \<open>search\<close> with an empty query, and \<open>update\<close> with neither text nor
  metadata raise a validation error and return the client as it was: its SDK client, and
  with it the log of invocations, is untouched, so no backend call was made.
\<close>

theorem validation_precedes_backend:
  "SLSMemoryClient_get c (PStr []) = (Inl (ValidationError ''memory_id is required''), c)
   \<and> SLSMemoryClient_get c PNone = (Inl (ValidationError ''memory_id is required''), c)
   \<and> SLSMemoryClient_update c (PStr []) text metadata = (Inl (ValidationError ''memory_id is required''), c)
   \<and> SLSMemoryClient_update c PNone text metadata = (Inl (ValidationError ''memory_id is required''), c)
   \<and> SLSMemoryClient_delete c (PStr []) = (Inl (ValidationError ''memory_id is required''), c)
   \<and> SLSMemoryClient_delete c PNone = (Inl (ValidationError ''memory_id is required''), c)
   \<and> SLSMemoryClient_history c (PStr []) = (Inl (ValidationError ''memory_id is required''), c)
   \<and> SLSMemoryClient_history c PNone = (Inl (ValidationError ''memory_id is required''), c)
   \<and> SLSMemoryClient_search c (PStr []) user_id agent_id app_id run_id top_k rerank =
       (Inl (ValidationError ''query is required''), c)
   \<and> SLSMemoryClient_update c memory_id PNone PNone =
       (Inl (ValidationError (if truthy memory_id
          then ''Either text or metadata must be provided for update.''
          else ''memory_id is required'')), c)
   \<and> AsyncSLSMemoryClient_get c (PStr []) = (Inl (ValidationError ''memory_id is required''), c)
   \<and> AsyncSLSMemoryClient_get c PNone = (Inl (ValidationError ''memory_id is required''), c)
   \<and> AsyncSLSMemoryClient_update c (PStr []) text metadata = (Inl (ValidationError ''memory_id is required''), c)
   \<and> AsyncSLSMemoryClient_update c PNone text metadata = (Inl (ValidationError ''memory_id is required''), c)
   \<and> AsyncSLSMemoryClient_delete c (PStr []) = (Inl (ValidationError ''memory_id is required''), c)
   \<and> AsyncSLSMemoryClient_delete c PNone = (Inl (ValidationError ''memory_id is required''), c)
   \<and> AsyncSLSMemoryClient_history c (PStr []) = (Inl (ValidationError ''memory_id is required''), c)
   \<and> AsyncSLSMemoryClient_history c PNone = (Inl (ValidationError ''memory_id is required''), c)
   \<and> AsyncSLSMemoryClient_search c (PStr []) user_id agent_id app_id run_id top_k rerank =
       (Inl (ValidationError ''query is required''), c)
   \<and> AsyncSLSMemoryClient_update c memory_id PNone PNone =
       (Inl (ValidationError (if truthy memory_id
          then ''Either text or metadata must be provided for update.''
          else ''memory_id is required'')), c)"
  by (simp add: Let_def SLSMemoryClient_get_def SLSMemoryClient_update_def SLSMemoryClient_delete_def SLSMemoryClient_history_def SLSMemoryClient_search_def AsyncSLSMemoryClient_get_def AsyncSLSMemoryClient_update_def AsyncSLSMemoryClient_delete_def AsyncSLSMemoryClient_history_def AsyncSLSMemoryClient_search_def)

text \<open>
  Claim C6, as the code has it.  A \<open>messages\<close> argument that is not a string, not a dict and
  not a list is rejected by both classes with the validation error
  \<open>messages must be str, dict, or list[dict], got T\<close>, where \<open>T\<close> is the name of its type,
  and \<open>add\<close> returns the client as it was: nothing was invoked on the SDK.
\<close>

theorem unsupported_type_rejected:
  "\<not> is_str m \<and> \<not> is_dict m \<and> \<not> is_list m \<longrightarrow>
     SLSMemoryClient_prepare_messages m =
       Inl (ValidationError (''messages must be str, dict, or list[dict], got '' @ type_name m))
     \<and> SLSMemoryClient_add c m user_id agent_id app_id run_id metadata infer async_mode =
         (Inl (ValidationError (''messages must be str, dict, or list[dict], got '' @ type_name m)), c)
     \<and> AsyncSLSMemoryClient_prepare_messages m =
       Inl (ValidationError (''messages must be str, dict, or list[dict], got '' @ type_name m))
     \<and> AsyncSLSMemoryClient_add c m user_id agent_id app_id run_id metadata infer
           custom_instructions async_mode =
         (Inl (ValidationError (''messages must be str, dict, or list[dict], got '' @ type_name m)), c)"
  by (simp add: SLSMemoryClient_prepare_messages_def AsyncSLSMemoryClient_prepare_messages_def
        SLSMemoryClient_add_def AsyncSLSMemoryClient_add_def)

text \<open>An integer and a tuple of dicts, on a client whose SDK log is empty before and after.\<close>

theorem unsupported_type_rejected_witness:
  "SLSMemoryClient_add (demo_client []) (PInt 42) (PStr ''user123'') PNone PNone PNone PNone
       (PBool True) (PBool True) =
     (Inl (ValidationError ''messages must be str, dict, or list[dict], got int''), demo_client [])
   \<and> AsyncSLSMemoryClient_add (demo_client []) (PTuple [PDict []]) (PStr ''user123'') PNone PNone
       PNone PNone (PBool True) PNone (PBool True) =
     (Inl (ValidationError ''messages must be str, dict, or list[dict], got tuple''), demo_client [])
   \<and> calls (priv_client (demo_client [])) = []"
  using unsupported_type_rejected [of "PInt 42" "demo_client []" "PStr ''user123''" PNone PNone
      PNone PNone "PBool True" "PBool True"]
    unsupported_type_rejected [of "PTuple [PDict []]" "demo_client []" "PStr ''user123''" PNone
      PNone PNone PNone "PBool True" "PBool True" PNone]
  by (simp add: demo_client_def scripted_def)

text \<open>
  The list \<open>[1]\<close> is not a string, not a dict and not a sequence of dicts, yet neither class
  answers it with a validation error: the loop calls \<open>get\<close> on the integer and the
  interpreter raises \<open>AttributeError\<close>.
\<close>

theorem list_of_non_mappings_counterexample:
  "\<not> is_str (PList [PInt 1]) \<and> \<not> is_dict (PList [PInt 1]) \<and> \<not> list_all is_dict [PInt 1]
   \<and> SLSMemoryClient_prepare_messages (PList [PInt 1])
        = Inl (AttributeError (no_attribute ''int'' ''get''))
   \<and> AsyncSLSMemoryClient_prepare_messages (PList [PInt 1])
        = Inl (AttributeError (no_attribute ''int'' ''get''))"
  by (simp add: SLSMemoryClient_prepare_messages_def AsyncSLSMemoryClient_prepare_messages_def
        py_get_def)

section \<open>The binding of a client\<close>

lemma init_sync_empty_project:
  "SLSMemoryClient_init new_SLSClient config (PStr []) memory_store =
       Inl (ValidationError ''project is required'')"
  by (simp add: SLSMemoryClient_init_def)

lemma init_sync_empty_memory_store:
  "SLSMemoryClient_init new_SLSClient config project (PStr []) =
       Inl (ValidationError (if truthy project then ''memory_store is required''
                             else ''project is required''))"
  by (simp add: SLSMemoryClient_init_def)

lemma init_sync_binding:
  "(SLSMemoryClient_init new_SLSClient config (PStr p) (PStr s) = Inr c \<longrightarrow>
         p \<noteq> [] \<and> s \<noteq> [] \<and> SLSMemoryClient_project c = PStr p \<and> SLSMemoryClient_memory_store c = PStr s)"
  by (auto simp: SLSMemoryClient_init_def SLSMemoryClient_project_def SLSMemoryClient_memory_store_def
        split: if_splits sum.splits)

lemma sync_project_binding:
  "SLSMemoryClient_project self = fst (binding self)"
  by (simp add: SLSMemoryClient_project_def binding_def)

lemma sync_memory_store_binding:
  "SLSMemoryClient_memory_store self = snd (binding self)"
  by (simp add: SLSMemoryClient_memory_store_def binding_def)

lemma binding_sync_add:
  "binding (snd (SLSMemoryClient_add self messages user_id agent_id app_id run_id metadata infer async_mode)) = binding self"
  by (simp add: SLSMemoryClient_add_def binding_def sdk_call_def Let_def
        split: prod.splits sum.splits)

lemma binding_sync_get:
  "binding (snd (SLSMemoryClient_get self memory_id)) = binding self"
  by (simp add: SLSMemoryClient_get_def binding_def sdk_call_def Let_def
        split: prod.splits sum.splits)

lemma binding_sync_get_all:
  "binding (snd (SLSMemoryClient_get_all self user_id agent_id app_id run_id limit)) = binding self"
  by (simp add: SLSMemoryClient_get_all_def binding_def sdk_call_def Let_def
        split: prod.splits sum.splits)

lemma binding_sync_search:
  "binding (snd (SLSMemoryClient_search self query user_id agent_id app_id run_id top_k rerank)) = binding self"
  by (simp add: SLSMemoryClient_search_def binding_def sdk_call_def Let_def
        split: prod.splits sum.splits)

lemma binding_sync_update:
  "binding (snd (SLSMemoryClient_update self memory_id text metadata)) = binding self"
  by (simp add: SLSMemoryClient_update_def binding_def sdk_call_def Let_def
        split: prod.splits sum.splits)

lemma binding_sync_delete:
  "binding (snd (SLSMemoryClient_delete self memory_id)) = binding self"
  by (simp add: SLSMemoryClient_delete_def binding_def sdk_call_def Let_def
        split: prod.splits sum.splits)

lemma binding_sync_delete_all:
  "binding (snd (SLSMemoryClient_delete_all self user_id agent_id app_id run_id)) = binding self"
  by (simp add: SLSMemoryClient_delete_all_def binding_def sdk_call_def Let_def
        split: prod.splits sum.splits)

lemma binding_sync_history:
  "binding (snd (SLSMemoryClient_history self memory_id)) = binding self"
  by (simp add: SLSMemoryClient_history_def binding_def sdk_call_def Let_def
        split: prod.splits sum.splits)

lemma binding_sync_create_memory_store:
  "binding (snd (SLSMemoryClient_create_memory_store self description custom_instructions enable_graph strategy short_term_ttl)) = binding self"
  by (simp add: SLSMemoryClient_create_memory_store_def binding_def sdk_call_def Let_def
        split: prod.splits sum.splits)

lemma binding_sync_describe_memory_store:
  "binding (snd (SLSMemoryClient_describe_memory_store self)) = binding self"
  by (simp add: SLSMemoryClient_describe_memory_store_def binding_def sdk_call_def Let_def
        split: prod.splits sum.splits)

lemma binding_sync_update_memory_store:
  "binding (snd (SLSMemoryClient_update_memory_store self description custom_instructions enable_graph strategy short_term_ttl)) = binding self"
  by (simp add: SLSMemoryClient_update_memory_store_def binding_def sdk_call_def Let_def
        split: prod.splits sum.splits)

lemma binding_sync_delete_memory_store:
  "binding (snd (SLSMemoryClient_delete_memory_store self)) = binding self"
  by (simp add: SLSMemoryClient_delete_memory_store_def binding_def sdk_call_def Let_def
        split: prod.splits sum.splits)

lemma init_async_empty_project:
  "AsyncSLSMemoryClient_init new_SLSClient config (PStr []) memory_store =
       Inl (ValidationError ''project is required'')"
  by (simp add: AsyncSLSMemoryClient_init_def)

lemma init_async_empty_memory_store:
  "AsyncSLSMemoryClient_init new_SLSClient config project (PStr []) =
       Inl (ValidationError (if truthy project then ''memory_store is required''
                             else ''project is required''))"
  by (simp add: AsyncSLSMemoryClient_init_def)

lemma init_async_binding:
  "(AsyncSLSMemoryClient_init new_SLSClient config (PStr p) (PStr s) = Inr c \<longrightarrow>
         p \<noteq> [] \<and> s \<noteq> [] \<and> AsyncSLSMemoryClient_project c = PStr p \<and> AsyncSLSMemoryClient_memory_store c = PStr s)"
  by (auto simp: AsyncSLSMemoryClient_init_def AsyncSLSMemoryClient_project_def AsyncSLSMemoryClient_memory_store_def
        split: if_splits sum.splits)

lemma async_project_binding:
  "AsyncSLSMemoryClient_project self = fst (binding self)"
  by (simp add: AsyncSLSMemoryClient_project_def binding_def)

lemma async_memory_store_binding:
  "AsyncSLSMemoryClient_memory_store self = snd (binding self)"
  by (simp add: AsyncSLSMemoryClient_memory_store_def binding_def)

lemma binding_async_add:
  "binding (snd (AsyncSLSMemoryClient_add self messages user_id agent_id app_id run_id metadata infer custom_instructions async_mode)) = binding self"
  by (simp add: AsyncSLSMemoryClient_add_def binding_def sdk_call_def Let_def
        split: prod.splits sum.splits)

lemma binding_async_get:
  "binding (snd (AsyncSLSMemoryClient_get self memory_id)) = binding self"
  by (simp add: AsyncSLSMemoryClient_get_def binding_def sdk_call_def Let_def
        split: prod.splits sum.splits)

lemma binding_async_get_all:
  "binding (snd (AsyncSLSMemoryClient_get_all self user_id agent_id app_id run_id limit)) = binding self"
  by (simp add: AsyncSLSMemoryClient_get_all_def binding_def sdk_call_def Let_def
        split: prod.splits sum.splits)

lemma binding_async_search:
  "binding (snd (AsyncSLSMemoryClient_search self query user_id agent_id app_id run_id top_k rerank)) = binding self"
  by (simp add: AsyncSLSMemoryClient_search_def binding_def sdk_call_def Let_def
        split: prod.splits sum.splits)

lemma binding_async_update:
  "binding (snd (AsyncSLSMemoryClient_update self memory_id text metadata)) = binding self"
  by (simp add: AsyncSLSMemoryClient_update_def binding_def sdk_call_def Let_def
        split: prod.splits sum.splits)

lemma binding_async_delete:
  "binding (snd (AsyncSLSMemoryClient_delete self memory_id)) = binding self"
  by (simp add: AsyncSLSMemoryClient_delete_def binding_def sdk_call_def Let_def
        split: prod.splits sum.splits)

lemma binding_async_delete_all:
  "binding (snd (AsyncSLSMemoryClient_delete_all self user_id agent_id app_id run_id)) = binding self"
  by (simp add: AsyncSLSMemoryClient_delete_all_def binding_def sdk_call_def Let_def
        split: prod.splits sum.splits)

lemma binding_async_history:
  "binding (snd (AsyncSLSMemoryClient_history self memory_id)) = binding self"
  by (simp add: AsyncSLSMemoryClient_history_def binding_def sdk_call_def Let_def
        split: prod.splits sum.splits)

lemma binding_async_create_memory_store:
  "binding (snd (AsyncSLSMemoryClient_create_memory_store self description custom_instructions enable_graph strategy short_term_ttl)) = binding self"
  by (simp add: AsyncSLSMemoryClient_create_memory_store_def binding_def sdk_call_def Let_def
        split: prod.splits sum.splits)

lemma binding_async_describe_memory_store:
  "binding (snd (AsyncSLSMemoryClient_describe_memory_store self)) = binding self"
  by (simp add: AsyncSLSMemoryClient_describe_memory_store_def binding_def sdk_call_def Let_def
        split: prod.splits sum.splits)

lemma binding_async_update_memory_store:
  "binding (snd (AsyncSLSMemoryClient_update_memory_store self description custom_instructions enable_graph strategy short_term_ttl)) = binding self"
  by (simp add: AsyncSLSMemoryClient_update_memory_store_def binding_def sdk_call_def Let_def
        split: prod.splits sum.splits)

lemma binding_async_delete_memory_store:
  "binding (snd (AsyncSLSMemoryClient_delete_memory_store self)) = binding self"
  by (simp add: AsyncSLSMemoryClient_delete_memory_store_def binding_def sdk_call_def Let_def
        split: prod.splits sum.splits)

lemma init_sync_holds_arguments:
  "(SLSMemoryClient_init new_SLSClient config project memory_store = Inr client \<longrightarrow>
      truthy project \<and> truthy memory_store
      \<and> SLSMemoryClient_project client = project \<and> SLSMemoryClient_memory_store client = memory_store)"
  by (auto simp: SLSMemoryClient_init_def SLSMemoryClient_project_def SLSMemoryClient_memory_store_def
        split: if_splits sum.splits)

lemma unchecked_sync_add:
  "(SLSMemoryClient_prepare_messages messages = Inr sls_messages \<longrightarrow>
      calls (priv_client (snd (SLSMemoryClient_add self messages user_id agent_id app_id run_id metadata infer async_mode))) =
        calls (priv_client self) @
          [(Sync, add_memories (priv_project self) (priv_memory_store self)
              \<lparr>add_messages = sls_messages, add_user_id = user_id,
               add_agent_id = agent_id, add_app_id = app_id, add_run_id = run_id,
               add_metadata = metadata, add_infer = infer,
               add_custom_instructions = PNone, add_async_mode = async_mode\<rparr>)])"
  by (auto simp: SLSMemoryClient_add_def sdk_call_def invoke_def Let_def
        split: prod.splits sum.splits)

lemma unchecked_sync_get:
  "(truthy memory_id \<longrightarrow>
      calls (priv_client (snd (SLSMemoryClient_get self memory_id))) =
        calls (priv_client self) @
          [(Sync, get_memory (priv_project self) (priv_memory_store self) memory_id)])"
  by (auto simp: SLSMemoryClient_get_def sdk_call_def invoke_def Let_def
        split: prod.splits sum.splits)

lemma unchecked_sync_get_all:
  "calls (priv_client (snd (SLSMemoryClient_get_all self user_id agent_id app_id run_id limit))) =
        calls (priv_client self) @
          [(Sync, get_memories (priv_project self) (priv_memory_store self)
              \<lparr>gm_user_id = user_id, gm_agent_id = agent_id, gm_app_id = app_id,
               gm_run_id = run_id, gm_limit = limit\<rparr>)]"
  by (auto simp: SLSMemoryClient_get_all_def sdk_call_def invoke_def Let_def
        split: prod.splits sum.splits)

lemma unchecked_sync_search:
  "(truthy query \<longrightarrow>
      calls (priv_client (snd (SLSMemoryClient_search self query user_id agent_id app_id run_id top_k rerank))) =
        calls (priv_client self) @
          [(Sync, search_memories (priv_project self) (priv_memory_store self)
              \<lparr>sm_query = query, sm_user_id = user_id, sm_agent_id = agent_id,
               sm_app_id = app_id, sm_run_id = run_id, sm_top_k = top_k,
               sm_rerank = rerank\<rparr>)])"
  by (auto simp: SLSMemoryClient_search_def sdk_call_def invoke_def Let_def
        split: prod.splits sum.splits)

lemma unchecked_sync_update:
  "(truthy memory_id \<and> (text \<noteq> PNone \<or> metadata \<noteq> PNone) \<longrightarrow>
      calls (priv_client (snd (SLSMemoryClient_update self memory_id text metadata))) =
        calls (priv_client self) @
          [(Sync, update_memory (priv_project self) (priv_memory_store self) memory_id
              \<lparr>um_text = text, um_metadata = metadata\<rparr>)])"
  by (auto simp: SLSMemoryClient_update_def sdk_call_def invoke_def Let_def
        split: prod.splits sum.splits)

lemma unchecked_sync_delete:
  "(truthy memory_id \<longrightarrow>
      calls (priv_client (snd (SLSMemoryClient_delete self memory_id))) =
        calls (priv_client self) @
          [(Sync, delete_memory (priv_project self) (priv_memory_store self) memory_id)])"
  by (auto simp: SLSMemoryClient_delete_def sdk_call_def invoke_def Let_def
        split: prod.splits sum.splits)

lemma unchecked_sync_delete_all:
  "calls (priv_client (snd (SLSMemoryClient_delete_all self user_id agent_id app_id run_id))) =
        calls (priv_client self) @
          [(Sync, delete_memories (priv_project self) (priv_memory_store self)
              \<lparr>dm_user_id = user_id, dm_agent_id = agent_id, dm_app_id = app_id,
               dm_run_id = run_id\<rparr>)]"
  by (auto simp: SLSMemoryClient_delete_all_def sdk_call_def invoke_def Let_def
        split: prod.splits sum.splits)

lemma unchecked_sync_history:
  "(truthy memory_id \<longrightarrow>
      calls (priv_client (snd (SLSMemoryClient_history self memory_id))) =
        calls (priv_client self) @
          [(Sync, get_memory_history (priv_project self) (priv_memory_store self) memory_id)])"
  by (auto simp: SLSMemoryClient_history_def sdk_call_def invoke_def Let_def
        split: prod.splits sum.splits)

lemma unchecked_sync_create_memory_store:
  "(\<exists>later. calls (priv_client (snd (SLSMemoryClient_create_memory_store self
          description custom_instructions enable_graph strategy short_term_ttl))) =
        calls (priv_client self) @
          (Sync, create_store_call self description custom_instructions enable_graph strategy short_term_ttl)
            # later)"
  by (auto simp: SLSMemoryClient_create_memory_store_def sdk_call_def invoke_def Let_def
        split: prod.splits sum.splits)

lemma unchecked_sync_describe_memory_store:
  "calls (priv_client (snd (SLSMemoryClient_describe_memory_store self))) =
        calls (priv_client self) @
          [(Sync, get_memory_store (priv_project self) (priv_memory_store self))]"
  by (auto simp: SLSMemoryClient_describe_memory_store_def sdk_call_def invoke_def Let_def
        split: prod.splits sum.splits)

lemma unchecked_sync_update_memory_store:
  "calls (priv_client (snd (SLSMemoryClient_update_memory_store self description custom_instructions enable_graph strategy short_term_ttl))) =
        calls (priv_client self) @
          [(Sync, update_memory_store (priv_project self) (priv_memory_store self)
              \<lparr>ums_description = description,
               ums_custom_instructions = custom_instructions,
               ums_enable_graph = enable_graph, ums_strategy = strategy,
               ums_short_term_ttl = short_term_ttl\<rparr>)]"
  by (auto simp: SLSMemoryClient_update_memory_store_def sdk_call_def invoke_def Let_def
        split: prod.splits sum.splits)

lemma unchecked_sync_delete_memory_store:
  "calls (priv_client (snd (SLSMemoryClient_delete_memory_store self))) =
        calls (priv_client self) @
          [(Sync, delete_memory_store (priv_project self) (priv_memory_store self))]"
  by (auto simp: SLSMemoryClient_delete_memory_store_def sdk_call_def invoke_def Let_def
        split: prod.splits sum.splits)

lemma init_async_holds_arguments:
  "(AsyncSLSMemoryClient_init new_SLSClient config project memory_store = Inr client \<longrightarrow>
      truthy project \<and> truthy memory_store
      \<and> AsyncSLSMemoryClient_project client = project \<and> AsyncSLSMemoryClient_memory_store client = memory_store)"
  by (auto simp: AsyncSLSMemoryClient_init_def AsyncSLSMemoryClient_project_def AsyncSLSMemoryClient_memory_store_def
        split: if_splits sum.splits)

lemma unchecked_async_add:
  "(AsyncSLSMemoryClient_prepare_messages messages = Inr sls_messages \<longrightarrow>
      calls (priv_client (snd (AsyncSLSMemoryClient_add self messages user_id agent_id app_id run_id metadata infer custom_instructions async_mode))) =
        calls (priv_client self) @
          [(Async, add_memories (priv_project self) (priv_memory_store self)
              \<lparr>add_messages = sls_messages, add_user_id = user_id,
               add_agent_id = agent_id, add_app_id = app_id, add_run_id = run_id,
               add_metadata = metadata, add_infer = infer,
               add_custom_instructions = custom_instructions, add_async_mode = async_mode\<rparr>)])"
  by (auto simp: AsyncSLSMemoryClient_add_def sdk_call_def invoke_def Let_def
        split: prod.splits sum.splits)

lemma unchecked_async_get:
  "(truthy memory_id \<longrightarrow>
      calls (priv_client (snd (AsyncSLSMemoryClient_get self memory_id))) =
        calls (priv_client self) @
          [(Async, get_memory (priv_project self) (priv_memory_store self) memory_id)])"
  by (auto simp: AsyncSLSMemoryClient_get_def sdk_call_def invoke_def Let_def
        split: prod.splits sum.splits)

lemma unchecked_async_get_all:
  "calls (priv_client (snd (AsyncSLSMemoryClient_get_all self user_id agent_id app_id run_id limit))) =
        calls (priv_client self) @
          [(Async, get_memories (priv_project self) (priv_memory_store self)
              \<lparr>gm_user_id = user_id, gm_agent_id = agent_id, gm_app_id = app_id,
               gm_run_id = run_id, gm_limit = limit\<rparr>)]"
  by (auto simp: AsyncSLSMemoryClient_get_all_def sdk_call_def invoke_def Let_def
        split: prod.splits sum.splits)

lemma unchecked_async_search:
  "(truthy query \<longrightarrow>
      calls (priv_client (snd (AsyncSLSMemoryClient_search self query user_id agent_id app_id run_id top_k rerank))) =
        calls (priv_client self) @
          [(Async, search_memories (priv_project self) (priv_memory_store self)
              \<lparr>sm_query = query, sm_user_id = user_id, sm_agent_id = agent_id,
               sm_app_id = app_id, sm_run_id = run_id, sm_top_k = top_k,
               sm_rerank = rerank\<rparr>)])"
  by (auto simp: AsyncSLSMemoryClient_search_def sdk_call_def invoke_def Let_def
        split: prod.splits sum.splits)

lemma unchecked_async_update:
  "(truthy memory_id \<and> (text \<noteq> PNone \<or> metadata \<noteq> PNone) \<longrightarrow>
      calls (priv_client (snd (AsyncSLSMemoryClient_update self memory_id text metadata))) =
        calls (priv_client self) @
          [(Async, update_memory (priv_project self) (priv_memory_store self) memory_id
              \<lparr>um_text = text, um_metadata = metadata\<rparr>)])"
  by (auto simp: AsyncSLSMemoryClient_update_def sdk_call_def invoke_def Let_def
        split: prod.splits sum.splits)

lemma unchecked_async_delete:
  "(truthy memory_id \<longrightarrow>
      calls (priv_client (snd (AsyncSLSMemoryClient_delete self memory_id))) =
        calls (priv_client self) @
          [(Async, delete_memory (priv_project self) (priv_memory_store self) memory_id)])"
  by (auto simp: AsyncSLSMemoryClient_delete_def sdk_call_def invoke_def Let_def
        split: prod.splits sum.splits)

lemma unchecked_async_delete_all:
  "calls (priv_client (snd (AsyncSLSMemoryClient_delete_all self user_id agent_id app_id run_id))) =
        calls (priv_client self) @
          [(Async, delete_memories (priv_project self) (priv_memory_store self)
              \<lparr>dm_user_id = user_id, dm_agent_id = agent_id, dm_app_id = app_id,
               dm_run_id = run_id\<rparr>)]"
  by (auto simp: AsyncSLSMemoryClient_delete_all_def sdk_call_def invoke_def Let_def
        split: prod.splits sum.splits)

lemma unchecked_async_history:
  "(truthy memory_id \<longrightarrow>
      calls (priv_client (snd (AsyncSLSMemoryClient_history self memory_id))) =
        calls (priv_client self) @
          [(Async, get_memory_history (priv_project self) (priv_memory_store self) memory_id)])"
  by (auto simp: AsyncSLSMemoryClient_history_def sdk_call_def invoke_def Let_def
        split: prod.splits sum.splits)

lemma unchecked_async_create_memory_store:
  "(\<exists>later. calls (priv_client (snd (AsyncSLSMemoryClient_create_memory_store self
          description custom_instructions enable_graph strategy short_term_ttl))) =
        calls (priv_client self) @
          (Async, create_store_call self description custom_instructions enable_graph strategy short_term_ttl)
            # later)"
  by (auto simp: AsyncSLSMemoryClient_create_memory_store_def sdk_call_def invoke_def Let_def
        split: prod.splits sum.splits)

lemma unchecked_async_describe_memory_store:
  "calls (priv_client (snd (AsyncSLSMemoryClient_describe_memory_store self))) =
        calls (priv_client self) @
          [(Async, get_memory_store (priv_project self) (priv_memory_store self))]"
  by (auto simp: AsyncSLSMemoryClient_describe_memory_store_def sdk_call_def invoke_def Let_def
        split: prod.splits sum.splits)

lemma unchecked_async_update_memory_store:
  "calls (priv_client (snd (AsyncSLSMemoryClient_update_memory_store self description custom_instructions enable_graph strategy short_term_ttl))) =
        calls (priv_client self) @
          [(Async, update_memory_store (priv_project self) (priv_memory_store self)
              \<lparr>ums_description = description,
               ums_custom_instructions = custom_instructions,
               ums_enable_graph = enable_graph, ums_strategy = strategy,
               ums_short_term_ttl = short_term_ttl\<rparr>)]"
  by (auto simp: AsyncSLSMemoryClient_update_memory_store_def sdk_call_def invoke_def Let_def
        split: prod.splits sum.splits)

lemma unchecked_async_delete_memory_store:
  "calls (priv_client (snd (AsyncSLSMemoryClient_delete_memory_store self))) =
        calls (priv_client self) @
          [(Async, delete_memory_store (priv_project self) (priv_memory_store self))]"
  by (auto simp: AsyncSLSMemoryClient_delete_memory_store_def sdk_call_def invoke_def Let_def
        split: prod.splits sum.splits)

text \<open>
  Claim C7, as the code has it.  Constructing a client of either class with an empty
  project or an empty memory store raises a validation error.  A client that was
  constructed holds exactly the two values it was given, and neither is empty: the
  constructor tests their truth value, not their type, so they are non-empty strings
  when strings were given.  The properties \<open>project\<close> and \<open>memory_store\<close> read this
  binding, and every method of either class returns the client with the binding it had.
  No method checks the binding again: whatever the project and the memory store of a
  client are, each method whose own arguments pass its checks invokes its SDK operation
  with them.
\<close>

theorem binding_fixed_at_construction:
  "SLSMemoryClient_init new_SLSClient config (PStr []) memory_store =
       Inl (ValidationError ''project is required'')
   \<and> SLSMemoryClient_init new_SLSClient config project (PStr []) =
       Inl (ValidationError (if truthy project then ''memory_store is required''
                             else ''project is required''))
   \<and> (SLSMemoryClient_init new_SLSClient config (PStr p) (PStr s) = Inr c \<longrightarrow>
         p \<noteq> [] \<and> s \<noteq> [] \<and> SLSMemoryClient_project c = PStr p \<and> SLSMemoryClient_memory_store c = PStr s)
   \<and> SLSMemoryClient_project self = fst (binding self)
   \<and> SLSMemoryClient_memory_store self = snd (binding self)
   \<and> binding (snd (SLSMemoryClient_add self messages user_id agent_id app_id run_id metadata infer async_mode)) = binding self
   \<and> binding (snd (SLSMemoryClient_get self memory_id)) = binding self
   \<and> binding (snd (SLSMemoryClient_get_all self user_id agent_id app_id run_id limit)) = binding self
   \<and> binding (snd (SLSMemoryClient_search self query user_id agent_id app_id run_id top_k rerank)) = binding self
   \<and> binding (snd (SLSMemoryClient_update self memory_id text metadata)) = binding self
   \<and> binding (snd (SLSMemoryClient_delete self memory_id)) = binding self
   \<and> binding (snd (SLSMemoryClient_delete_all self user_id agent_id app_id run_id)) = binding self
   \<and> binding (snd (SLSMemoryClient_history self memory_id)) = binding self
   \<and> binding (snd (SLSMemoryClient_create_memory_store self description custom_instructions enable_graph strategy short_term_ttl)) = binding self
   \<and> binding (snd (SLSMemoryClient_describe_memory_store self)) = binding self
   \<and> binding (snd (SLSMemoryClient_update_memory_store self description custom_instructions enable_graph strategy short_term_ttl)) = binding self
   \<and> binding (snd (SLSMemoryClient_delete_memory_store self)) = binding self
   \<and> AsyncSLSMemoryClient_init new_SLSClient config (PStr []) memory_store =
       Inl (ValidationError ''project is required'')
   \<and> AsyncSLSMemoryClient_init new_SLSClient config project (PStr []) =
       Inl (ValidationError (if truthy project then ''memory_store is required''
                             else ''project is required''))
   \<and> (AsyncSLSMemoryClient_init new_SLSClient config (PStr p) (PStr s) = Inr c \<longrightarrow>
         p \<noteq> [] \<and> s \<noteq> [] \<and> AsyncSLSMemoryClient_project c = PStr p \<and> AsyncSLSMemoryClient_memory_store c = PStr s)
   \<and> AsyncSLSMemoryClient_project self = fst (binding self)
   \<and> AsyncSLSMemoryClient_memory_store self = snd (binding self)
   \<and> binding (snd (AsyncSLSMemoryClient_add self messages user_id agent_id app_id run_id metadata infer custom_instructions async_mode)) = binding self
   \<and> binding (snd (AsyncSLSMemoryClient_get self memory_id)) = binding self
   \<and> binding (snd (AsyncSLSMemoryClient_get_all self user_id agent_id app_id run_id limit)) = binding self
   \<and> binding (snd (AsyncSLSMemoryClient_search self query user_id agent_id app_id run_id top_k rerank)) = binding self
   \<and> binding (snd (AsyncSLSMemoryClient_update self memory_id text metadata)) = binding self
   \<and> binding (snd (AsyncSLSMemoryClient_delete self memory_id)) = binding self
   \<and> binding (snd (AsyncSLSMemoryClient_delete_all self user_id agent_id app_id run_id)) = binding self
   \<and> binding (snd (AsyncSLSMemoryClient_history self memory_id)) = binding self
   \<and> binding (snd (AsyncSLSMemoryClient_create_memory_store self description custom_instructions enable_graph strategy short_term_ttl)) = binding self
   \<and> binding (snd (AsyncSLSMemoryClient_describe_memory_store self)) = binding self
   \<and> binding (snd (AsyncSLSMemoryClient_update_memory_store self description custom_instructions enable_graph strategy short_term_ttl)) = binding self
   \<and> binding (snd (AsyncSLSMemoryClient_delete_memory_store self)) = binding self
   \<and> (SLSMemoryClient_init new_SLSClient config project memory_store = Inr client \<longrightarrow>
      truthy project \<and> truthy memory_store
      \<and> SLSMemoryClient_project client = project \<and> SLSMemoryClient_memory_store client = memory_store)
   \<and> (SLSMemoryClient_prepare_messages messages = Inr sls_messages \<longrightarrow>
      calls (priv_client (snd (SLSMemoryClient_add self messages user_id agent_id app_id run_id metadata infer async_mode))) =
        calls (priv_client self) @
          [(Sync, add_memories (priv_project self) (priv_memory_store self)
              \<lparr>add_messages = sls_messages, add_user_id = user_id,
               add_agent_id = agent_id, add_app_id = app_id, add_run_id = run_id,
               add_metadata = metadata, add_infer = infer,
               add_custom_instructions = PNone, add_async_mode = async_mode\<rparr>)])
   \<and> (truthy memory_id \<longrightarrow>
      calls (priv_client (snd (SLSMemoryClient_get self memory_id))) =
        calls (priv_client self) @
          [(Sync, get_memory (priv_project self) (priv_memory_store self) memory_id)])
   \<and> calls (priv_client (snd (SLSMemoryClient_get_all self user_id agent_id app_id run_id limit))) =
        calls (priv_client self) @
          [(Sync, get_memories (priv_project self) (priv_memory_store self)
              \<lparr>gm_user_id = user_id, gm_agent_id = agent_id, gm_app_id = app_id,
               gm_run_id = run_id, gm_limit = limit\<rparr>)]
   \<and> (truthy query \<longrightarrow>
      calls (priv_client (snd (SLSMemoryClient_search self query user_id agent_id app_id run_id top_k rerank))) =
        calls (priv_client self) @
          [(Sync, search_memories (priv_project self) (priv_memory_store self)
              \<lparr>sm_query = query, sm_user_id = user_id, sm_agent_id = agent_id,
               sm_app_id = app_id, sm_run_id = run_id, sm_top_k = top_k,
               sm_rerank = rerank\<rparr>)])
   \<and> (truthy memory_id \<and> (text \<noteq> PNone \<or> metadata \<noteq> PNone) \<longrightarrow>
      calls (priv_client (snd (SLSMemoryClient_update self memory_id text metadata))) =
        calls (priv_client self) @
          [(Sync, update_memory (priv_project self) (priv_memory_store self) memory_id
              \<lparr>um_text = text, um_metadata = metadata\<rparr>)])
   \<and> (truthy memory_id \<longrightarrow>
      calls (priv_client (snd (SLSMemoryClient_delete self memory_id))) =
        calls (priv_client self) @
          [(Sync, delete_memory (priv_project self) (priv_memory_store self) memory_id)])
   \<and> calls (priv_client (snd (SLSMemoryClient_delete_all self user_id agent_id app_id run_id))) =
        calls (priv_client self) @
          [(Sync, delete_memories (priv_project self) (priv_memory_store self)
              \<lparr>dm_user_id = user_id, dm_agent_id = agent_id, dm_app_id = app_id,
               dm_run_id = run_id\<rparr>)]
   \<and> (truthy memory_id \<longrightarrow>
      calls (priv_client (snd (SLSMemoryClient_history self memory_id))) =
        calls (priv_client self) @
          [(Sync, get_memory_history (priv_project self) (priv_memory_store self) memory_id)])
   \<and> (\<exists>later. calls (priv_client (snd (SLSMemoryClient_create_memory_store self
          description custom_instructions enable_graph strategy short_term_ttl))) =
        calls (priv_client self) @
          (Sync, create_store_call self description custom_instructions enable_graph strategy short_term_ttl)
            # later)
   \<and> calls (priv_client (snd (SLSMemoryClient_describe_memory_store self))) =
        calls (priv_client self) @
          [(Sync, get_memory_store (priv_project self) (priv_memory_store self))]
   \<and> calls (priv_client (snd (SLSMemoryClient_update_memory_store self description custom_instructions enable_graph strategy short_term_ttl))) =
        calls (priv_client self) @
          [(Sync, update_memory_store (priv_project self) (priv_memory_store self)
              \<lparr>ums_description = description,
               ums_custom_instructions = custom_instructions,
               ums_enable_graph = enable_graph, ums_strategy = strategy,
               ums_short_term_ttl = short_term_ttl\<rparr>)]
   \<and> calls (priv_client (snd (SLSMemoryClient_delete_memory_store self))) =
        calls (priv_client self) @
          [(Sync, delete_memory_store (priv_project self) (priv_memory_store self))]
   \<and> (AsyncSLSMemoryClient_init new_SLSClient config project memory_store = Inr client \<longrightarrow>
      truthy project \<and> truthy memory_store
      \<and> AsyncSLSMemoryClient_project client = project \<and> AsyncSLSMemoryClient_memory_store client = memory_store)
   \<and> (AsyncSLSMemoryClient_prepare_messages messages = Inr sls_messages \<longrightarrow>
      calls (priv_client (snd (AsyncSLSMemoryClient_add self messages user_id agent_id app_id run_id metadata infer custom_instructions async_mode))) =
        calls (priv_client self) @
          [(Async, add_memories (priv_project self) (priv_memory_store self)
              \<lparr>add_messages = sls_messages, add_user_id = user_id,
               add_agent_id = agent_id, add_app_id = app_id, add_run_id = run_id,
               add_metadata = metadata, add_infer = infer,
               add_custom_instructions = custom_instructions, add_async_mode = async_mode\<rparr>)])
   \<and> (truthy memory_id \<longrightarrow>
      calls (priv_client (snd (AsyncSLSMemoryClient_get self memory_id))) =
        calls (priv_client self) @
          [(Async, get_memory (priv_project self) (priv_memory_store self) memory_id)])
   \<and> calls (priv_client (snd (AsyncSLSMemoryClient_get_all self user_id agent_id app_id run_id limit))) =
        calls (priv_client self) @
          [(Async, get_memories (priv_project self) (priv_memory_store self)
              \<lparr>gm_user_id = user_id, gm_agent_id = agent_id, gm_app_id = app_id,
               gm_run_id = run_id, gm_limit = limit\<rparr>)]
   \<and> (truthy query \<longrightarrow>
      calls (priv_client (snd (AsyncSLSMemoryClient_search self query user_id agent_id app_id run_id top_k rerank))) =
        calls (priv_client self) @
          [(Async, search_memories (priv_project self) (priv_memory_store self)
              \<lparr>sm_query = query, sm_user_id = user_id, sm_agent_id = agent_id,
               sm_app_id = app_id, sm_run_id = run_id, sm_top_k = top_k,
               sm_rerank = rerank\<rparr>)])
   \<and> (truthy memory_id \<and> (text \<noteq> PNone \<or> metadata \<noteq> PNone) \<longrightarrow>
      calls (priv_client (snd (AsyncSLSMemoryClient_update self memory_id text metadata))) =
        calls (priv_client self) @
          [(Async, update_memory (priv_project self) (priv_memory_store self) memory_id
              \<lparr>um_text = text, um_metadata = metadata\<rparr>)])
   \<and> (truthy memory_id \<longrightarrow>
      calls (priv_client (snd (AsyncSLSMemoryClient_delete self memory_id))) =
        calls (priv_client self) @
          [(Async, delete_memory (priv_project self) (priv_memory_store self) memory_id)])
   \<and> calls (priv_client (snd (AsyncSLSMemoryClient_delete_all self user_id agent_id app_id run_id))) =
        calls (priv_client self) @
          [(Async, delete_memories (priv_project self) (priv_memory_store self)
              \<lparr>dm_user_id = user_id, dm_agent_id = agent_id, dm_app_id = app_id,
               dm_run_id = run_id\<rparr>)]
   \<and> (truthy memory_id \<longrightarrow>
      calls (priv_client (snd (AsyncSLSMemoryClient_history self memory_id))) =
        calls (priv_client self) @
          [(Async, get_memory_history (priv_project self) (priv_memory_store self) memory_id)])
   \<and> (\<exists>later. calls (priv_client (snd (AsyncSLSMemoryClient_create_memory_store self
          description custom_instructions enable_graph strategy short_term_ttl))) =
        calls (priv_client self) @
          (Async, create_store_call self description custom_instructions enable_graph strategy short_term_ttl)
            # later)
   \<and> calls (priv_client (snd (AsyncSLSMemoryClient_describe_memory_store self))) =
        calls (priv_client self) @
          [(Async, get_memory_store (priv_project self) (priv_memory_store self))]
   \<and> calls (priv_client (snd (AsyncSLSMemoryClient_update_memory_store self description custom_instructions enable_graph strategy short_term_ttl))) =
        calls (priv_client self) @
          [(Async, update_memory_store (priv_project self) (priv_memory_store self)
              \<lparr>ums_description = description,
               ums_custom_instructions = custom_instructions,
               ums_enable_graph = enable_graph, ums_strategy = strategy,
               ums_short_term_ttl = short_term_ttl\<rparr>)]
   \<and> calls (priv_client (snd (AsyncSLSMemoryClient_delete_memory_store self))) =
        calls (priv_client self) @
          [(Async, delete_memory_store (priv_project self) (priv_memory_store self))]"
  by (intro conjI)
     (rule init_sync_empty_project init_sync_empty_memory_store init_sync_binding
        sync_project_binding sync_memory_store_binding binding_sync_add
        binding_sync_get binding_sync_get_all binding_sync_search
        binding_sync_update binding_sync_delete binding_sync_delete_all
        binding_sync_history binding_sync_create_memory_store binding_sync_describe_memory_store
        binding_sync_update_memory_store binding_sync_delete_memory_store init_async_empty_project
        init_async_empty_memory_store init_async_binding async_project_binding
        async_memory_store_binding binding_async_add binding_async_get
        binding_async_get_all binding_async_search binding_async_update
        binding_async_delete binding_async_delete_all binding_async_history
        binding_async_create_memory_store binding_async_describe_memory_store binding_async_update_memory_store
        binding_async_delete_memory_store
        init_sync_holds_arguments unchecked_sync_add unchecked_sync_get
        unchecked_sync_get_all unchecked_sync_search unchecked_sync_update
        unchecked_sync_delete unchecked_sync_delete_all unchecked_sync_history
        unchecked_sync_create_memory_store unchecked_sync_describe_memory_store unchecked_sync_update_memory_store
        unchecked_sync_delete_memory_store init_async_holds_arguments unchecked_async_add
        unchecked_async_get unchecked_async_get_all unchecked_async_search
        unchecked_async_update unchecked_async_delete unchecked_async_delete_all
        unchecked_async_history unchecked_async_create_memory_store unchecked_async_describe_memory_store
        unchecked_async_update_memory_store unchecked_async_delete_memory_store)+

text \<open>
  A client constructed from two strings, and methods on a client whose project and
  memory store are empty: the SDK is invoked with the empty strings.
\<close>

theorem binding_fixed_at_construction_witness:
  "SLSMemoryClient_init connect () (PStr ''my-project'') (PStr ''my-store'')
       = Inr (demo_client [])
   \<and> AsyncSLSMemoryClient_init connect () (PStr ''my-project'') (PStr ''my-store'')
       = Inr (demo_client [])
   \<and> SLSMemoryClient_project (demo_client []) = PStr ''my-project''
   \<and> SLSMemoryClient_memory_store (demo_client []) = PStr ''my-store''
   \<and> AsyncSLSMemoryClient_project (demo_client []) = PStr ''my-project''
   \<and> AsyncSLSMemoryClient_memory_store (demo_client []) = PStr ''my-store''
   \<and> calls (priv_client (snd (SLSMemoryClient_get (unbound_client [Inr (ok_response PNone)])
         (PStr ''m1'')))) =
       [(Sync, get_memory (PStr []) (PStr []) (PStr ''m1''))]
   \<and> calls (priv_client (snd (SLSMemoryClient_add (unbound_client [Inr (ok_response PNone)])
         (PStr ''hi'') PNone PNone PNone PNone PNone PNone PNone))) =
       [(Sync, add_memories (PStr []) (PStr [])
                 \<lparr>add_messages = [\<lparr>role = PStr ''user'', content = PStr ''hi''\<rparr>],
                  add_user_id = PNone, add_agent_id = PNone, add_app_id = PNone,
                  add_run_id = PNone, add_metadata = PNone, add_infer = PNone,
                  add_custom_instructions = PNone, add_async_mode = PNone\<rparr>)]
   \<and> calls (priv_client (snd (AsyncSLSMemoryClient_update
         (unbound_client [Inr (ok_response PNone)]) (PStr ''m1'') (PStr ''t'') PNone))) =
       [(Async, update_memory (PStr []) (PStr []) (PStr ''m1'')
                  \<lparr>um_text = PStr ''t'', um_metadata = PNone\<rparr>)]"
proof -
  have built: "SLSMemoryClient_init connect () (PStr ''my-project'') (PStr ''my-store'')
      = Inr (demo_client [])"
    by (simp add: SLSMemoryClient_init_def demo_client_def connect_def)
  have built_async: "AsyncSLSMemoryClient_init connect () (PStr ''my-project'')
      (PStr ''my-store'') = Inr (demo_client [])"
    by (simp add: AsyncSLSMemoryClient_init_def demo_client_def connect_def)
  have prepared: "SLSMemoryClient_prepare_messages (PStr ''hi'')
      = Inr [\<lparr>role = PStr ''user'', content = PStr ''hi''\<rparr>]"
    by (simp add: SLSMemoryClient_prepare_messages_def py_get_def)
  have prepared_async: "AsyncSLSMemoryClient_prepare_messages (PStr ''hi'')
      = Inr [\<lparr>role = PStr ''user'', content = PStr ''hi''\<rparr>]"
    by (simp add: AsyncSLSMemoryClient_prepare_messages_def py_get_def)
  have start: "\<And>script. calls (priv_client (unbound_client script)) = []"
      "\<And>script. priv_project (unbound_client script) = PStr []"
      "\<And>script. priv_memory_store (unbound_client script) = PStr []"
    by (simp_all add: unbound_client_def scripted_def)
  note inst = binding_fixed_at_construction [where new_SLSClient = connect
      and config = "()" and p = "''my-project''" and s = "''my-store''" and c = "demo_client []"
      and client = "demo_client []" and project = "PStr ''my-project''"
      and memory_store = "PStr ''my-store''"
      and self = "unbound_client [Inr (ok_response PNone)]"
      and messages = "PStr ''hi''"
      and sls_messages = "[\<lparr>role = PStr ''user'', content = PStr ''hi''\<rparr>]"
      and memory_id = "PStr ''m1''" and query = "PStr ''tennis''" and ?text = "PStr ''t''"
      and user_id = PNone
      and agent_id = PNone
      and app_id = PNone
      and run_id = PNone
      and metadata = PNone
      and infer = PNone
      and async_mode = PNone
      and limit = PNone
      and top_k = PNone
      and rerank = PNone
      and description = PNone
      and custom_instructions = PNone
      and enable_graph = PNone
      and strategy = PNone
      and short_term_ttl = PNone]
  from inst built have "SLSMemoryClient_project (demo_client []) = PStr ''my-project''
      \<and> SLSMemoryClient_memory_store (demo_client []) = PStr ''my-store''"
    by blast
  moreover from inst built_async have "AsyncSLSMemoryClient_project (demo_client []) = PStr ''my-project''
      \<and> AsyncSLSMemoryClient_memory_store (demo_client []) = PStr ''my-store''"
    by blast
  moreover from inst have "calls (priv_client (snd (SLSMemoryClient_get
         (unbound_client [Inr (ok_response PNone)]) (PStr ''m1'')))) =
       [(Sync, get_memory (PStr []) (PStr []) (PStr ''m1''))]
   \<and> calls (priv_client (snd (SLSMemoryClient_add (unbound_client [Inr (ok_response PNone)])
         (PStr ''hi'') PNone PNone PNone PNone PNone PNone PNone))) =
       [(Sync, add_memories (PStr []) (PStr [])
                 \<lparr>add_messages = [\<lparr>role = PStr ''user'', content = PStr ''hi''\<rparr>],
                  add_user_id = PNone, add_agent_id = PNone, add_app_id = PNone,
                  add_run_id = PNone, add_metadata = PNone, add_infer = PNone,
                  add_custom_instructions = PNone, add_async_mode = PNone\<rparr>)]
   \<and> calls (priv_client (snd (AsyncSLSMemoryClient_update
         (unbound_client [Inr (ok_response PNone)]) (PStr ''m1'') (PStr ''t'') PNone))) =
       [(Async, update_memory (PStr []) (PStr []) (PStr ''m1'')
                  \<lparr>um_text = PStr ''t'', um_metadata = PNone\<rparr>)]"
    by (simp add: start prepared prepared_async)
  ultimately show ?thesis using built built_async by simp
qed

text \<open>
  The constructors accept the integer \<open>5\<close> as project and the list \<open>["s"]\<close> as memory
  store: both are true values.  The client is constructed and its project and memory
  store are not strings.
\<close>

theorem non_string_binding_counterexample:
  "SLSMemoryClient_init connect () (PInt 5) (PList [PStr ''s'']) =
     Inr \<lparr>priv_client = scripted [], priv_project = PInt 5,
          priv_memory_store = PList [PStr ''s'']\<rparr>
   \<and> AsyncSLSMemoryClient_init connect () (PInt 5) (PList [PStr ''s'']) =
     Inr \<lparr>priv_client = scripted [], priv_project = PInt 5,
          priv_memory_store = PList [PStr ''s'']\<rparr>
   \<and> SLSMemoryClient_project
       \<lparr>priv_client = scripted [], priv_project = PInt 5,
        priv_memory_store = PList [PStr ''s'']\<rparr> = PInt 5
   \<and> SLSMemoryClient_memory_store
       \<lparr>priv_client = scripted [], priv_project = PInt 5,
        priv_memory_store = PList [PStr ''s'']\<rparr> = PList [PStr ''s'']
   \<and> \<not> is_str (PInt 5) \<and> \<not> is_str (PList [PStr ''s''])"
  by (simp add: SLSMemoryClient_init_def AsyncSLSMemoryClient_init_def connect_def
        SLSMemoryClient_project_def SLSMemoryClient_memory_store_def)

text \<open>
  Claim C8.  With a non-empty memory id, \<open>update\<close> with the empty string as text and
  \<open>update\<close> with the empty dict as metadata pass the local checks in both classes: the
  SDK's \<open>update_memory\<close> is invoked once with these values, and what \<open>update\<close> returns or
  raises is the status dict of the backend's response or the backend's exception.
\<close>

theorem update_accepts_empty_values:
  "truthy memory_id \<longrightarrow>
      fst (SLSMemoryClient_update c memory_id (PStr []) metadata) =
          map_sum id status_and_headers
           (answers c
             (update_memory (priv_project c) (priv_memory_store c) memory_id
              \<lparr>um_text = (PStr []), um_metadata = metadata\<rparr>))
      \<and> calls (priv_client (snd (SLSMemoryClient_update c memory_id (PStr []) metadata))) =
          calls (priv_client c) @
            [(Sync, update_memory (priv_project c) (priv_memory_store c) memory_id
              \<lparr>um_text = (PStr []), um_metadata = metadata\<rparr>)]
      \<and> fst (SLSMemoryClient_update c memory_id text (PDict [])) =
          map_sum id status_and_headers
           (answers c
             (update_memory (priv_project c) (priv_memory_store c) memory_id
              \<lparr>um_text = text, um_metadata = (PDict [])\<rparr>))
      \<and> calls (priv_client (snd (SLSMemoryClient_update c memory_id text (PDict [])))) =
          calls (priv_client c) @
            [(Sync, update_memory (priv_project c) (priv_memory_store c) memory_id
              \<lparr>um_text = text, um_metadata = (PDict [])\<rparr>)]
      \<and> fst (AsyncSLSMemoryClient_update c memory_id (PStr []) metadata) =
          map_sum id status_and_headers
           (answers c
             (update_memory (priv_project c) (priv_memory_store c) memory_id
              \<lparr>um_text = (PStr []), um_metadata = metadata\<rparr>))
      \<and> calls (priv_client (snd (AsyncSLSMemoryClient_update c memory_id (PStr []) metadata))) =
          calls (priv_client c) @
            [(Async, update_memory (priv_project c) (priv_memory_store c) memory_id
              \<lparr>um_text = (PStr []), um_metadata = metadata\<rparr>)]
      \<and> fst (AsyncSLSMemoryClient_update c memory_id text (PDict [])) =
          map_sum id status_and_headers
           (answers c
             (update_memory (priv_project c) (priv_memory_store c) memory_id
              \<lparr>um_text = text, um_metadata = (PDict [])\<rparr>))
      \<and> calls (priv_client (snd (AsyncSLSMemoryClient_update c memory_id text (PDict [])))) =
          calls (priv_client c) @
            [(Async, update_memory (priv_project c) (priv_memory_store c) memory_id
              \<lparr>um_text = text, um_metadata = (PDict [])\<rparr>)]"
  by (cases "text"; cases metadata)
     (simp_all add: SLSMemoryClient_update_def AsyncSLSMemoryClient_update_def sdk_call_def Let_def
        invoke_def answers_def split: prod.splits sum.splits)

theorem update_accepts_empty_values_witness:
  "truthy (PStr ''m1'')
   \<and> SLSMemoryClient_update (demo_client [Inr (ok_response PNone)]) (PStr ''m1'') (PStr []) PNone
       = (Inr (PDict [(PStr ''status_code'', PInt 200), (PStr ''headers'', PDict [])]),
          \<lparr>priv_client = (scripted [])\<lparr>calls :=
              [(Sync, update_memory (PStr ''my-project'') (PStr ''my-store'') (PStr ''m1'')
                        \<lparr>um_text = PStr [], um_metadata = PNone\<rparr>)]\<rparr>,
           priv_project = PStr ''my-project'', priv_memory_store = PStr ''my-store''\<rparr>)
   \<and> fst (AsyncSLSMemoryClient_update (demo_client [Inr (ok_response PNone)]) (PStr ''m1'') PNone
         (PDict []))
       = Inr (PDict [(PStr ''status_code'', PInt 200), (PStr ''headers'', PDict [])])"
  using update_accepts_empty_values [of "PStr ''m1''" "demo_client [Inr (ok_response PNone)]" PNone PNone]
  by (simp add: SLSMemoryClient_update_def AsyncSLSMemoryClient_update_def sdk_call_def Let_def
        invoke_def demo_client_def scripted_def ok_response_def status_and_headers_def)



text \<open>
  Claim C10.  \<open>delete_all\<close> checks nothing locally.  For all four scoping identifiers,
  \<open>None\<close> included, both classes invoke the SDK's \<open>delete_memories\<close> once with the
  identifiers as given, and return the status dict of the backend's response or raise
  the backend's exception; no other outcome exists.
\<close>

theorem delete_all_unvalidated:
  "fst (SLSMemoryClient_delete_all c user_id agent_id app_id run_id) =
       map_sum id status_and_headers
        (answers c
          (delete_memories (priv_project c) (priv_memory_store c)
           \<lparr>dm_user_id = user_id, dm_agent_id = agent_id, dm_app_id = app_id,
            dm_run_id = run_id\<rparr>))
   \<and> calls (priv_client (snd (SLSMemoryClient_delete_all c user_id agent_id app_id run_id))) =
       calls (priv_client c) @
         [(Sync, delete_memories (priv_project c) (priv_memory_store c)
           \<lparr>dm_user_id = user_id, dm_agent_id = agent_id, dm_app_id = app_id,
            dm_run_id = run_id\<rparr>)]
   \<and> fst (AsyncSLSMemoryClient_delete_all c user_id agent_id app_id run_id) =
       map_sum id status_and_headers
        (answers c
          (delete_memories (priv_project c) (priv_memory_store c)
           \<lparr>dm_user_id = user_id, dm_agent_id = agent_id, dm_app_id = app_id,
            dm_run_id = run_id\<rparr>))
   \<and> calls (priv_client (snd (AsyncSLSMemoryClient_delete_all c user_id agent_id app_id run_id))) =
       calls (priv_client c) @
         [(Async, delete_memories (priv_project c) (priv_memory_store c)
           \<lparr>dm_user_id = user_id, dm_agent_id = agent_id, dm_app_id = app_id,
            dm_run_id = run_id\<rparr>)]"
  by (simp add: SLSMemoryClient_delete_all_def AsyncSLSMemoryClient_delete_all_def sdk_call_def Let_def
        invoke_def answers_def split: prod.splits sum.splits)

end
